theory Spec2Isabelle
  imports Main "HOL-Library.Sublist" "HOL-Library.AList"
begin

section \<open>Python values and built-ins used by roadlocalize\<close>

text \<open>
  Strings are \<^typ>\<open>string\<close>: the bytes of the UTF-8 encoding of the Python text.  Every
  pattern the library searches for is ASCII or a whole code point, so a match on bytes is
  a match on code points.  The exceptions the library can raise are values of \<open>error\<close>.
\<close>

datatype error = ValueError | TypeError | AttributeError | OverflowError

text \<open>
  A float is a sign, a mantissa and a binary exponent, standing for
  \<open>(-1)^s * m * 2^e\<close>, or an infinity, or a NaN.  A date carries year, month and day; a
  datetime carries hour, minute and second as well.
\<close>

datatype pyfloat = Finite bool nat int | Infinity bool | NaN

datatype pywhen = Date nat nat nat | DateTime nat nat nat nat nat nat

datatype pyvalue = VInt int | VFloat pyfloat | VWhen pywhen | VStr string

text \<open>\<open>s.replace(old, new)\<close>: all occurrences, leftmost first, not overlapping.\<close>

fun str_replace_from :: "string \<Rightarrow> string \<Rightarrow> string \<Rightarrow> string" where
  "str_replace_from old new [] = []"
| "str_replace_from old new (c # cs) =
     (if old \<noteq> [] \<and> prefix old (c # cs)
      then new @ str_replace_from old new (drop (length old) (c # cs))
      else c # str_replace_from old new cs)"

definition str_replace :: "string \<Rightarrow> string \<Rightarrow> string \<Rightarrow> string" where
  "str_replace s old new =
     (if old = [] then new @ concat (map (\<lambda>c. c # new) s) else str_replace_from old new s)"

text \<open>\<open>str(n)\<close> for an integer: decimal digits, with a minus sign when negative.\<close>

definition digit_char :: "nat \<Rightarrow> char" where
  "digit_char n = ''0123456789'' ! (n mod 10)"

fun digits :: "nat \<Rightarrow> string" where
  "digits n = (if n < 10 then [digit_char n] else digits (n div 10) @ [digit_char (n mod 10)])"

declare digits.simps [simp del]

definition str_int :: "int \<Rightarrow> string" where
  "str_int n = (if n < 0 then ''-'' else []) @ digits (nat \<bar>n\<bar>)"

text \<open>
  The thousands grouping of the format specifier \<open>,\<close>: a separator after every digit that
  is followed by a positive multiple of three digits.
\<close>

fun group3 :: "string \<Rightarrow> string \<Rightarrow> string" where
  "group3 sep [] = []"
| "group3 sep (d # ds) =
     (if ds \<noteq> [] \<and> length ds mod 3 = 0 then d # sep @ group3 sep ds else d # group3 sep ds)"

definition zero_pad :: "nat \<Rightarrow> string \<Rightarrow> string" where
  "zero_pad w s = replicate (w - length s) (CHR ''0'') @ s"

text \<open>\<open>f"{n:,}"\<close> for an integer and \<open>f"{n:02d}"\<close> for a natural number.\<close>

definition format_comma :: "int \<Rightarrow> string" where
  "format_comma n = (if n < 0 then ''-'' else []) @ group3 '','' (digits (nat \<bar>n\<bar>))"

definition format_02d :: "nat \<Rightarrow> string" where
  "format_02d n = zero_pad 2 (digits n)"

text \<open>
  Fixed-point rendering of a float rounds the exact binary value to the requested number
  of places, ties to even; \<open>round_half_even n d\<close> is the integer nearest to \<open>n / d\<close>.
\<close>

definition round_half_even :: "nat \<Rightarrow> nat \<Rightarrow> nat" where
  "round_half_even n d =
     (let q = n div d; r = n mod d
      in if 2 * r < d then q
         else if d < 2 * r then q + 1
         else if even q then q else q + 1)"

definition scaled :: "nat \<Rightarrow> int \<Rightarrow> nat \<Rightarrow> nat" where
  "scaled m e p =
     (if 0 \<le> e then m * 2 ^ nat e * 10 ^ p else round_half_even (m * 10 ^ p) (2 ^ nat (- e)))"

definition fixed_point :: "string \<Rightarrow> nat \<Rightarrow> nat \<Rightarrow> string" where
  "fixed_point sep q p =
     group3 sep (digits (q div 10 ^ p)) @
     (if p = 0 then [] else ''.'' @ zero_pad p (digits (q mod 10 ^ p)))"

definition format_float_comma_f :: "pyfloat \<Rightarrow> nat \<Rightarrow> string" where
  "format_float_comma_f x p =
     (case x of
        Finite s m e \<Rightarrow> (if s then ''-'' else []) @ fixed_point '','' (scaled m e p) p
      | Infinity s \<Rightarrow> (if s then ''-inf'' else ''inf'')
      | NaN \<Rightarrow> ''nan'')"

text \<open>
  Rounding \<open>m * 2^e\<close> to a double: at most 53 bits of mantissa, exponent at least
  \<open>-1074\<close>, ties to even, infinity from \<open>2^1024\<close> on.
\<close>

fun bit_length :: "nat \<Rightarrow> nat" where
  "bit_length n = (if n = 0 then 0 else Suc (bit_length (n div 2)))"

declare bit_length.simps [simp del]

definition round_to_double :: "bool \<Rightarrow> nat \<Rightarrow> int \<Rightarrow> pyfloat" where
  "round_to_double s m e =
     (let k = max (int (bit_length m) - 53) (- 1074 - e);
          m' = (if k \<le> 0 then m else round_half_even m (2 ^ nat k));
          e' = (if k \<le> 0 then e else e + k)
      in if 1024 < int (bit_length m') + e' then Infinity s else Finite s m' e')"

text \<open>\<open>x * 100\<close> on a float.\<close>

definition float_times_100 :: "pyfloat \<Rightarrow> pyfloat" where
  "float_times_100 x =
     (case x of
        Finite s m e \<Rightarrow> round_to_double s (m * 100) e
      | Infinity s \<Rightarrow> Infinity s
      | NaN \<Rightarrow> NaN)"

text \<open>
  \<open>f"{value:,.{decimals}f}"\<close>.  A precision that is not a digit string is rejected for
  numbers and strings; an integer is converted to a float first; a date hands the
  specifier to \<open>strftime\<close>, which copies text without directives.
\<close>

definition format_comma_f :: "pyvalue \<Rightarrow> int \<Rightarrow> error + string" where
  "format_comma_f v decimals =
     (case v of
        VInt n \<Rightarrow>
          (if decimals < 0 then Inl ValueError
           else (case round_to_double (n < 0) (nat \<bar>n\<bar>) 0 of
                   Infinity s \<Rightarrow> Inl OverflowError
                 | x \<Rightarrow> Inr (format_float_comma_f x (nat decimals))))
      | VFloat x \<Rightarrow>
          (if decimals < 0 then Inl ValueError else Inr (format_float_comma_f x (nat decimals)))
      | VWhen w \<Rightarrow> Inr ('',.'' @ str_int decimals @ ''f'')
      | VStr s \<Rightarrow> Inl ValueError)"

section \<open>Locale\<close>

datatype PluralForm = ZERO | ONE | TWO | FEW | MANY | OTHER

fun plural_value :: "PluralForm \<Rightarrow> string" where
  "plural_value ZERO = ''zero''"
| "plural_value ONE = ''one''"
| "plural_value TWO = ''two''"
| "plural_value FEW = ''few''"
| "plural_value MANY = ''many''"
| "plural_value OTHER = ''other''"

record Locale =
  code :: string
  name :: string
  native_name :: string
  direction :: string
  date_format :: string
  time_format :: string
  number_decimal :: string
  number_thousand :: string
  currency_symbol :: string
  currency_position :: string
  plural_rule :: "(int \<Rightarrow> PluralForm) option"

text \<open>The dataclass defaults of \<open>Locale\<close>.\<close>

definition new_Locale :: "string \<Rightarrow> string \<Rightarrow> string \<Rightarrow> Locale" where
  "new_Locale c n nn =
     \<lparr>code = c, name = n, native_name = nn, direction = ''ltr'',
      date_format = ''YYYY-MM-DD'', time_format = ''HH:mm:ss'',
      number_decimal = ''.'', number_thousand = '','',
      currency_symbol = ''$'', currency_position = ''before'', plural_rule = None\<rparr>"

section \<open>Formatter\<close>

text \<open>
  A \<open>Formatter\<close> holds one field, \<open>self.locale\<close>; \<open>LocaleManager.get_formatter\<close> can
  build one around \<open>None\<close>, and then every read of an attribute of \<open>self.locale\<close>
  raises.  \<open>bind_err\<close> sequences two steps, the first of which may raise.
\<close>

definition bind_err :: "error + 'a \<Rightarrow> ('a \<Rightarrow> error + 'b) \<Rightarrow> error + 'b" where
  "bind_err m f = (case m of Inl err \<Rightarrow> Inl err | Inr x \<Rightarrow> f x)"

definition attr :: "Locale option \<Rightarrow> (Locale \<Rightarrow> 'a) \<Rightarrow> error + 'a" where
  "attr self_locale field = (case self_locale of None \<Rightarrow> Inl AttributeError | Some l \<Rightarrow> Inr (field l))"

text \<open>\<open>arg or self.locale.field\<close> for an optional string argument.\<close>

definition or_attr :: "string option \<Rightarrow> Locale option \<Rightarrow> (Locale \<Rightarrow> string) \<Rightarrow> error + string" where
  "or_attr arg self_locale field =
     (case arg of
        Some s \<Rightarrow> if s \<noteq> [] then Inr s else attr self_locale field
      | None \<Rightarrow> attr self_locale field)"

definition number :: "Locale option \<Rightarrow> pyvalue \<Rightarrow> int \<Rightarrow> error + string" where
  "number self_locale v decimals =
     (case v of
        VInt n \<Rightarrow>
          (let formatted = str_replace (format_comma n) '','' ''THOUSAND''
           in bind_err (attr self_locale number_thousand) (\<lambda>th.
              Inr (str_replace formatted ''THOUSAND'' th)))
      | _ \<Rightarrow>
          bind_err (format_comma_f v decimals) (\<lambda>s.
            let formatted = str_replace s '','' ''THOUSAND''
            in bind_err (attr self_locale number_decimal) (\<lambda>dec.
               let formatted = str_replace formatted ''.'' dec
               in bind_err (attr self_locale number_thousand) (\<lambda>th.
                  Inr (str_replace formatted ''THOUSAND'' th)))))"

definition currency :: "Locale option \<Rightarrow> pyvalue \<Rightarrow> string option \<Rightarrow> error + string" where
  "currency self_locale v symbol =
     bind_err (or_attr symbol self_locale currency_symbol) (\<lambda>sym.
     bind_err (number self_locale v 2) (\<lambda>num.
     bind_err (attr self_locale currency_position) (\<lambda>pos.
       if pos = ''before'' then Inr (sym @ num) else Inr (num @ '' '' @ sym))))"

text \<open>The attributes \<open>year\<close>, \<open>month\<close>, \<open>day\<close>, \<open>hour\<close>, \<open>minute\<close>, \<open>second\<close> of a value.\<close>

fun py_year :: "pyvalue \<Rightarrow> error + nat" where
  "py_year (VWhen (Date y m d)) = Inr y"
| "py_year (VWhen (DateTime y m d hh mi ss)) = Inr y"
| "py_year _ = Inl AttributeError"

fun py_month :: "pyvalue \<Rightarrow> error + nat" where
  "py_month (VWhen (Date y m d)) = Inr m"
| "py_month (VWhen (DateTime y m d hh mi ss)) = Inr m"
| "py_month _ = Inl AttributeError"

fun py_day :: "pyvalue \<Rightarrow> error + nat" where
  "py_day (VWhen (Date y m d)) = Inr d"
| "py_day (VWhen (DateTime y m d hh mi ss)) = Inr d"
| "py_day _ = Inl AttributeError"

fun py_hour :: "pyvalue \<Rightarrow> error + nat" where
  "py_hour (VWhen (DateTime y m d hh mi ss)) = Inr hh"
| "py_hour _ = Inl AttributeError"

fun py_minute :: "pyvalue \<Rightarrow> error + nat" where
  "py_minute (VWhen (DateTime y m d hh mi ss)) = Inr mi"
| "py_minute _ = Inl AttributeError"

fun py_second :: "pyvalue \<Rightarrow> error + nat" where
  "py_second (VWhen (DateTime y m d hh mi ss)) = Inr ss"
| "py_second _ = Inl AttributeError"

text \<open>\<open>s[-2:]\<close>, and the three ideographs of the replacement table of \<open>date\<close>.\<close>

definition last2 :: "string \<Rightarrow> string" where
  "last2 s = drop (length s - 2) s"

definition nen :: string where "nen = [CHR 0xE5, CHR 0xB9, CHR 0xB4]"
definition gatsu :: string where "gatsu = [CHR 0xE6, CHR 0x9C, CHR 0x88]"
definition nichi :: string where "nichi = [CHR 0xE6, CHR 0x97, CHR 0xA5]"

text \<open>The loop \<open>for key, val in replacements.items(): result = result.replace(key, val)\<close>.\<close>

definition apply_replacements :: "(string \<times> string) list \<Rightarrow> string \<Rightarrow> string" where
  "apply_replacements replacements fmt =
     fold (\<lambda>(key, val) result. str_replace result key val) replacements fmt"

definition date :: "Locale option \<Rightarrow> pyvalue \<Rightarrow> string option \<Rightarrow> error + string" where
  "date self_locale v format_str =
     bind_err (or_attr format_str self_locale date_format) (\<lambda>fmt.
     bind_err (py_year v) (\<lambda>y.
     bind_err (py_month v) (\<lambda>m.
     bind_err (py_day v) (\<lambda>d.
       Inr (apply_replacements
              [(''YYYY'', digits y), (''YY'', last2 (digits y)),
               (''MM'', format_02d m), (''DD'', format_02d d),
               (nen, nen), (gatsu, gatsu), (nichi, nichi)] fmt)))))"

definition time :: "Locale option \<Rightarrow> pyvalue \<Rightarrow> string option \<Rightarrow> error + string" where
  "time self_locale v format_str =
     bind_err (or_attr format_str self_locale time_format) (\<lambda>fmt.
     bind_err (py_hour v) (\<lambda>hh.
     bind_err (py_minute v) (\<lambda>mi.
     bind_err (py_second v) (\<lambda>ss.
       Inr (apply_replacements
              [(''HH'', format_02d hh), (''mm'', format_02d mi), (''ss'', format_02d ss)] fmt)))))"

text \<open>\<open>value * 100\<close>: exact on integers, rounded on floats, repetition on strings.\<close>

fun times_100 :: "pyvalue \<Rightarrow> error + pyvalue" where
  "times_100 (VInt n) = Inr (VInt (n * 100))"
| "times_100 (VFloat x) = Inr (VFloat (float_times_100 x))"
| "times_100 (VStr s) = Inr (VStr (concat (replicate 100 s)))"
| "times_100 (VWhen w) = Inl TypeError"

definition percentage :: "Locale option \<Rightarrow> pyvalue \<Rightarrow> int \<Rightarrow> error + string" where
  "percentage self_locale v decimals =
     bind_err (times_100 v) (\<lambda>v100.
     bind_err (number self_locale v100 decimals) (\<lambda>s. Inr (s @ ''%'')))"

section \<open>TranslationStore\<close>

text \<open>
  Translation data is JSON-like: scalars and nested dictionaries, a dictionary being the
  list of its items in insertion order.  Float and list leaves are not modelled.
\<close>

datatype scalar = SNone | SBool bool | SInt int | SStr string

datatype json = JScalar scalar | JDict "(string \<times> json) list"

text \<open>\<open>str(value)\<close> of a scalar.\<close>

fun str_scalar :: "scalar \<Rightarrow> string" where
  "str_scalar SNone = ''None''"
| "str_scalar (SBool b) = (if b then ''True'' else ''False'')"
| "str_scalar (SInt n) = str_int n"
| "str_scalar (SStr s) = s"

text \<open>
  The field \<open>value\<close> is annotated \<open>str\<close>, but \<open>load_json\<close> stores the \<open>other\<close> member
  of a plural bundle there as it is, so the field holds any JSON value.
\<close>

record Translation =
  tr_key :: string
  tr_locale :: string
  tr_value :: json
  tr_plural_forms :: "(string \<times> json) list"
  tr_context :: string
  tr_metadata :: "(string \<times> json) list"

definition new_Translation :: "string \<Rightarrow> string \<Rightarrow> json \<Rightarrow> Translation" where
  "new_Translation k l v =
     \<lparr>tr_key = k, tr_locale = l, tr_value = v, tr_plural_forms = [],
      tr_context = [], tr_metadata = []\<rparr>"

text \<open>The attributes \<open>translations\<close> and \<open>locales\<close> of the store.\<close>

record TranslationStore =
  st_translations :: "string \<rightharpoonup> (string \<rightharpoonup> Translation)"
  st_locales :: "string \<rightharpoonup> Locale"

definition add_locale :: "TranslationStore \<Rightarrow> Locale \<Rightarrow> TranslationStore" where
  "add_locale st l =
     st\<lparr>st_locales := (st_locales st)(code l \<mapsto> l),
        st_translations :=
          (if st_translations st (code l) = None then (st_translations st)(code l \<mapsto> Map.empty)
           else st_translations st)\<rparr>"

definition get_locale :: "TranslationStore \<Rightarrow> string \<Rightarrow> Locale option" where
  "get_locale st c = st_locales st c"

definition add_translation :: "TranslationStore \<Rightarrow> Translation \<Rightarrow> TranslationStore" where
  "add_translation st t =
     (let per_locale = (case st_translations st (tr_locale t) of None \<Rightarrow> Map.empty | Some m \<Rightarrow> m)
      in st\<lparr>st_translations := (st_translations st)(tr_locale t \<mapsto> per_locale(tr_key t \<mapsto> t))\<rparr>)"

definition get_translation :: "TranslationStore \<Rightarrow> string \<Rightarrow> string \<Rightarrow> Translation option" where
  "get_translation st l k = (case st_translations st l of None \<Rightarrow> None | Some m \<Rightarrow> m k)"

text \<open>\<open>f"{prefix}.{key}" if prefix else key\<close>.\<close>

definition full_key :: "string \<Rightarrow> string \<Rightarrow> string" where
  "full_key pfx k = (if pfx \<noteq> [] then pfx @ ''.'' @ k else k)"

text \<open>\<open>d.get(k, default)\<close> and \<open>k in d\<close> on a dictionary.\<close>

definition dict_get :: "(string \<times> 'v) list \<Rightarrow> string \<Rightarrow> 'v \<Rightarrow> 'v" where
  "dict_get d k dflt = (case map_of d k of None \<Rightarrow> dflt | Some v \<Rightarrow> v)"

definition dict_has :: "(string \<times> 'v) list \<Rightarrow> string \<Rightarrow> bool" where
  "dict_has d k = (map_of d k \<noteq> None)"

text \<open>
  \<open>load_json\<close>: the loop over \<open>data.items()\<close> is the recursion over the list of items; the
  store is threaded through, the count is the sum of what each item adds.
\<close>

function load_json ::
  "TranslationStore \<Rightarrow> string \<Rightarrow> (string \<times> json) list \<Rightarrow> string \<Rightarrow> TranslationStore \<times> int"
where
  "load_json st l [] pfx = (st, 0)"
| "load_json st l ((k, JScalar v) # items) pfx =
     (let trans = new_Translation (full_key pfx k) l (JScalar (SStr (str_scalar v)));
          st1 = add_translation st trans;
          (st2, n) = load_json st1 l items pfx
      in (st2, 1 + n))"
| "load_json st l ((k, JDict d) # items) pfx =
     (if dict_has d ''one'' \<or> dict_has d ''other''
      then
        (let trans = (new_Translation (full_key pfx k) l (dict_get d ''other'' (JScalar (SStr []))))
                       \<lparr>tr_plural_forms := d\<rparr>;
             st1 = add_translation st trans;
             (st2, n) = load_json st1 l items pfx
         in (st2, 1 + n))
      else
        (let (st1, c) = load_json st l d (full_key pfx k);
             (st2, n) = load_json st1 l items pfx
         in (st2, c + n)))"
  by pat_completeness auto
termination
  by (relation "measure (\<lambda>(st, l, items, pfx). size_list (size_prod (\<lambda>_. 0) size) items)") auto

text \<open>\<open>TranslationStore()\<close>: the seven locales of \<open>_setup_default_locales\<close>.\<close>

definition euro :: string where "euro = [CHR 0xE2, CHR 0x82, CHR 0xAC]"

definition en_US :: Locale where
  "en_US = new_Locale ''en-US'' ''English (US)'' ''English''"

definition en_GB :: Locale where
  "en_GB = (new_Locale ''en-GB'' ''English (UK)'' ''English'')
     \<lparr>date_format := ''DD/MM/YYYY'', currency_symbol := [CHR 0xC2, CHR 0xA3]\<rparr>"

definition es_ES :: Locale where
  "es_ES = (new_Locale ''es-ES'' ''Spanish'' (''Espa'' @ [CHR 0xC3, CHR 0xB1] @ ''ol''))
     \<lparr>number_decimal := '','', number_thousand := ''.'',
      currency_symbol := euro, currency_position := ''after''\<rparr>"

definition fr_FR :: Locale where
  "fr_FR = (new_Locale ''fr-FR'' ''French'' (''Fran'' @ [CHR 0xC3, CHR 0xA7] @ ''ais''))
     \<lparr>date_format := ''DD/MM/YYYY'', number_decimal := '','', number_thousand := '' '',
      currency_symbol := euro, currency_position := ''after''\<rparr>"

definition de_DE :: Locale where
  "de_DE = (new_Locale ''de-DE'' ''German'' ''Deutsch'')
     \<lparr>date_format := ''DD.MM.YYYY'', number_decimal := '','', number_thousand := ''.'',
      currency_symbol := euro, currency_position := ''after''\<rparr>"

definition ja_JP :: Locale where
  "ja_JP = (new_Locale ''ja-JP'' ''Japanese''
              [CHR 0xE6, CHR 0x97, CHR 0xA5, CHR 0xE6, CHR 0x9C, CHR 0xAC, CHR 0xE8, CHR 0xAA, CHR 0x9E])
     \<lparr>date_format := ''YYYY'' @ nen @ ''MM'' @ gatsu @ ''DD'' @ nichi,
      currency_symbol := [CHR 0xC2, CHR 0xA5]\<rparr>"

definition ar_SA :: Locale where
  "ar_SA = (new_Locale ''ar-SA'' ''Arabic''
              [CHR 0xD8, CHR 0xA7, CHR 0xD9, CHR 0x84, CHR 0xD8, CHR 0xB9, CHR 0xD8, CHR 0xB1,
               CHR 0xD8, CHR 0xA8, CHR 0xD9, CHR 0x8A, CHR 0xD8, CHR 0xA9])
     \<lparr>direction := ''rtl'', currency_symbol := [CHR 0xEF, CHR 0xB7, CHR 0xBC]\<rparr>"

definition new_TranslationStore :: TranslationStore where
  "new_TranslationStore =
     fold (\<lambda>l st. add_locale st l) [en_US, en_GB, es_ES, fr_FR, de_DE, ja_JP, ar_SA]
       \<lparr>st_translations = Map.empty, st_locales = Map.empty\<rparr>"

section \<open>Translator\<close>

text \<open>
  The attribute \<open>_interpolation_pattern\<close> is the compiled pattern \<open>\{\{(\w+)\}\}\<close>.
  What \<open>\w\<close> accepts beyond ASCII comes from the Unicode database of the interpreter,
  which is no part of this repository: the model keeps it as \<open>word_table\<close>, a predicate
  on the characters beyond ASCII, each given by the bytes of its UTF-8 encoding.
\<close>

record Translator =
  store :: TranslationStore
  default_locale :: string
  fallback_chain :: "string \<rightharpoonup> string list"
  word_table :: "string \<Rightarrow> bool"

definition new_Translator :: "(string \<Rightarrow> bool) \<Rightarrow> TranslationStore \<Rightarrow> string \<Rightarrow> Translator" where
  "new_Translator table st dl =
     \<lparr>store = st, default_locale = dl,
      fallback_chain =
        [''en-GB'' \<mapsto> [''en-US''], ''es-MX'' \<mapsto> [''es-ES''], ''fr-CA'' \<mapsto> [''fr-FR''],
         ''pt-BR'' \<mapsto> [''pt-PT''], ''zh-TW'' \<mapsto> [''zh-CN'']],
      word_table = table\<rparr>"

definition get_plural_form :: "Translator \<Rightarrow> string \<Rightarrow> int \<Rightarrow> PluralForm" where
  "get_plural_form self l n =
     (case (case get_locale (store self) l of None \<Rightarrow> None | Some locale_obj \<Rightarrow> plural_rule locale_obj) of
        Some rule \<Rightarrow> rule n
      | None \<Rightarrow> if n = 0 then ZERO else if n = 1 then ONE else OTHER)"

text \<open>
  A Python string is a sequence of characters; here it is the bytes of its UTF-8
  encoding, and \<open>uchars\<close> gives the characters back, each as its bytes: one byte below
  128, or a byte from 128 on with the continuation bytes (128 to 191) that follow it.
\<close>

definition is_continuation :: "char \<Rightarrow> bool" where
  "is_continuation c = (128 \<le> (of_char c :: nat) \<and> (of_char c :: nat) < 192)"

function uchars :: "string \<Rightarrow> string list" where
  "uchars [] = []"
| "uchars (c # cs) =
     (if (of_char c :: nat) < 128 then [c] # uchars cs
      else (c # takeWhile is_continuation cs) # uchars (dropWhile is_continuation cs))"
  by pat_completeness auto
termination
  by (relation "measure length") (auto simp: length_dropWhile_le less_Suc_eq_le)

text \<open>
  \<open>\w\<close> on a character: letters, digits and the underscore in ASCII, and what the
  table says beyond ASCII.
\<close>

definition ascii_word :: "char \<Rightarrow> bool" where
  "ascii_word c =
     (c \<in> set ''abcdefghijklmnopqrstuvwxyzABCDEFGHIJKLMNOPQRSTUVWXYZ0123456789_'')"

definition word_char :: "(string \<Rightarrow> bool) \<Rightarrow> string \<Rightarrow> bool" where
  "word_char table ch =
     (case ch of
        [c] \<Rightarrow> if (of_char c :: nat) < 128 then ascii_word c else table ch
      | _ \<Rightarrow> table ch)"

text \<open>
  The pattern \<open>\{\{(\w+)\}\}\<close> on the characters of a text.  The greedy \<open>\w+\<close> takes
  the longest run of word characters; giving characters back cannot help, because the
  next character must be \<open>}\<close>, which is not a word character.  \<open>match_placeholder\<close> is
  the match at the start of the text: the characters of the name and the text after the
  match.
\<close>

definition match_placeholder ::
  "(string \<Rightarrow> bool) \<Rightarrow> string list \<Rightarrow> (string list \<times> string list) option" where
  "match_placeholder table s =
     (case s of
        a # b # r \<Rightarrow>
          (let nm = takeWhile (word_char table) r; r' = dropWhile (word_char table) r
           in if a = ''{'' \<and> b = ''{'' \<and> nm \<noteq> [] \<and> take 2 r' = [''}'', ''}'']
              then Some (nm, drop 2 r') else None)
      | _ \<Rightarrow> None)"

lemma match_placeholder_shorter:
  "match_placeholder table s = Some (nm, rest) \<Longrightarrow> length rest < length s"
proof -
  assume h: "match_placeholder table s = Some (nm, rest)"
  then obtain a b r where s: "s = a # b # r"
    by (cases s rule: list.exhaust [case_product list.exhaust])
       (auto simp: match_placeholder_def split: list.splits)
  with h have "rest = drop 2 (dropWhile (word_char table) r)"
    by (auto simp: match_placeholder_def Let_def split: if_splits)
  then have "length rest \<le> length r"
    using length_dropWhile_le [of "word_char table" r] by simp
  with s show ?thesis by simp
qed

text \<open>
  The callback \<open>replace(match)\<close>, with \<open>match.group(1)\<close> the name and \<open>match.group(0)\<close>
  the whole placeholder, and \<open>pattern.sub(replace, text)\<close> on the characters of the text.
\<close>

definition placeholder :: "string \<Rightarrow> string" where
  "placeholder nm = ''{{'' @ nm @ ''}}''"

definition replace_match :: "(string \<times> scalar) list \<Rightarrow> string \<Rightarrow> string" where
  "replace_match params nm = str_scalar (dict_get params nm (SStr (placeholder nm)))"

function pattern_sub :: "(string \<Rightarrow> bool) \<Rightarrow> (string \<times> scalar) list \<Rightarrow> string list \<Rightarrow> string" where
  "pattern_sub table params [] = []"
| "pattern_sub table params (c # cs) =
     (case match_placeholder table (c # cs) of
        Some (nm, rest) \<Rightarrow> replace_match params (concat nm) @ pattern_sub table params rest
      | None \<Rightarrow> c @ pattern_sub table params cs)"
  by pat_completeness auto
termination
  by (relation "measure (\<lambda>(table, params, s). length s)")
     (auto dest: match_placeholder_shorter)

text \<open>\<open>_interpolate\<close>: \<open>re.sub\<close> raises \<open>TypeError\<close> on a text that is not a string.\<close>

definition interpolate :: "Translator \<Rightarrow> json \<Rightarrow> (string \<times> scalar) list \<Rightarrow> error + string" where
  "interpolate self text params =
     (case text of
        JScalar (SStr s) \<Rightarrow> Inr (pattern_sub (word_table self) params (uchars s))
      | _ \<Rightarrow> Inl TypeError)"

text \<open>
  \<open>translate\<close>.  \<open>locale or self.default_locale\<close> replaces an absent or empty locale;
  \<open>params or {}\<close> keeps the caller's dictionary when it is not empty and takes a fresh one
  otherwise.  The loop over \<open>locales_to_try\<close> returns at the first locale that has the key;
  \<open>try_locales\<close> gives the returned text and the final contents of \<open>params\<close>, or \<open>None\<close>
  when the loop ends without returning.
\<close>

definition effective_locale :: "Translator \<Rightarrow> string option \<Rightarrow> string" where
  "effective_locale self locale_arg =
     (case locale_arg of
        Some l \<Rightarrow> if l \<noteq> [] then l else default_locale self
      | None \<Rightarrow> default_locale self)"

definition locales_to_try :: "Translator \<Rightarrow> string \<Rightarrow> string list" where
  "locales_to_try self l =
     [l] @ (case fallback_chain self l of Some fs \<Rightarrow> fs | None \<Rightarrow> []) @ [default_locale self]"

fun try_locales ::
  "Translator \<Rightarrow> string \<Rightarrow> int option \<Rightarrow> (string \<times> scalar) list \<Rightarrow> string list \<Rightarrow>
   ((error + string) \<times> (string \<times> scalar) list) option"
where
  "try_locales self k cnt params [] = None"
| "try_locales self k cnt params (try_locale # rest) =
     (case get_translation (store self) try_locale k of
        Some translation \<Rightarrow>
          (if cnt \<noteq> None \<and> tr_plural_forms translation \<noteq> []
           then
             (let plural_form = get_plural_form self try_locale (the cnt);
                  text = dict_get (tr_plural_forms translation) (plural_value plural_form)
                           (dict_get (tr_plural_forms translation) ''other'' (tr_value translation));
                  params' = AList.update ''count'' (SInt (the cnt)) params
              in Some (interpolate self text params', params'))
           else Some (interpolate self (tr_value translation) params, params))
      | None \<Rightarrow> try_locales self k cnt params rest)"

text \<open>
  The result of \<open>translate\<close> is the returned text (or the exception) and the contents of
  the caller's \<open>params\<close> dictionary after the call (\<open>None\<close> when the caller passed none).
\<close>

definition translate ::
  "Translator \<Rightarrow> string \<Rightarrow> string option \<Rightarrow> (string \<times> scalar) list option \<Rightarrow> int option \<Rightarrow>
   string option \<Rightarrow> (error + string) \<times> (string \<times> scalar) list option"
where
  "translate self k locale_arg params_arg cnt dflt =
     (let l = effective_locale self locale_arg;
          aliased = (case params_arg of Some p \<Rightarrow> p \<noteq> [] | None \<Rightarrow> False);
          params = (case params_arg of Some p \<Rightarrow> if p \<noteq> [] then p else [] | None \<Rightarrow> [])
      in case try_locales self k cnt params (locales_to_try self l) of
           Some (res, params') \<Rightarrow> (res, if aliased then Some params' else params_arg)
         | None \<Rightarrow> (Inr (case dflt of Some d \<Rightarrow> d | None \<Rightarrow> k), params_arg))"

definition has_translation :: "Translator \<Rightarrow> string \<Rightarrow> string option \<Rightarrow> bool" where
  "has_translation self k locale_arg =
     (get_translation (store self) (effective_locale self locale_arg) k \<noteq> None)"

section \<open>LocaleManager and I18n\<close>

text \<open>
  One \<open>I18n\<close> object: its translator (whose store is the store of the object), the
  thread-local current locale of its locale manager (\<open>None\<close> while unset) and the cache
  of formatters, each formatter being the locale it was built around.  The constructor
  takes the word table of the interpreter and hands it to the translator it builds.
\<close>

record I18n =
  translator :: Translator
  current_locale :: "string option"
  formatters :: "string \<rightharpoonup> Locale option"

definition new_I18n :: "(string \<Rightarrow> bool) \<Rightarrow> string \<Rightarrow> I18n" where
  "new_I18n table dl =
     \<lparr>translator = new_Translator table new_TranslationStore dl,
      current_locale = None, formatters = Map.empty\<rparr>"

definition current :: "I18n \<Rightarrow> string" where
  "current self =
     (case current_locale self of Some l \<Rightarrow> l | None \<Rightarrow> default_locale (translator self))"

definition set_locale :: "I18n \<Rightarrow> string \<Rightarrow> I18n" where
  "set_locale self l = self\<lparr>current_locale := Some l\<rparr>"

definition get_formatter :: "I18n \<Rightarrow> string option \<Rightarrow> Locale option \<times> I18n" where
  "get_formatter self locale_arg =
     (let l = (case locale_arg of Some l \<Rightarrow> if l \<noteq> [] then l else current self | None \<Rightarrow> current self)
      in case formatters self l of
           Some formatter \<Rightarrow> (formatter, self)
         | None \<Rightarrow>
             (let formatter =
                    (case get_locale (store (translator self)) l of
                       Some locale_obj \<Rightarrow> Some locale_obj
                     | None \<Rightarrow> get_locale (store (translator self)) (default_locale (translator self)))
              in (formatter, self\<lparr>formatters := (formatters self)(l \<mapsto> formatter)\<rparr>)))"

definition load_translations :: "I18n \<Rightarrow> string \<Rightarrow> (string \<times> json) list \<Rightarrow> I18n \<times> int" where
  "load_translations self l data =
     (let (st, n) = load_json (store (translator self)) l data []
      in (self\<lparr>translator := (translator self)\<lparr>store := st\<rparr>\<rparr>, n))"

definition t ::
  "I18n \<Rightarrow> string \<Rightarrow> (string \<times> scalar) list option \<Rightarrow> int option \<Rightarrow> string option \<Rightarrow>
   (error + string) \<times> (string \<times> scalar) list option"
where
  "t self k params_arg cnt dflt = translate (translator self) k (Some (current self)) params_arg cnt dflt"

text \<open>
  \<open>I18n.format\<close>.  The \<open>isinstance\<close> tests are \<open>is_number\<close> and \<open>is_when\<close>; only a string
  reaches the final \<open>str(value)\<close>.
\<close>

fun is_number :: "pyvalue \<Rightarrow> bool" where
  "is_number (VInt n) = True"
| "is_number (VFloat x) = True"
| "is_number _ = False"

fun is_when :: "pyvalue \<Rightarrow> bool" where
  "is_when (VWhen w) = True"
| "is_when _ = False"

definition format :: "I18n \<Rightarrow> pyvalue \<Rightarrow> string \<Rightarrow> (error + string) \<times> I18n" where
  "format self v format_type =
     (let (formatter, self') = get_formatter self None
      in (if format_type = ''number'' \<or> is_number v then number formatter v 2
          else if format_type = ''currency'' then currency formatter v None
          else if format_type = ''date'' \<or> is_when v then date formatter v None
          else if format_type = ''percentage'' then percentage formatter v 1
          else Inr (case v of VStr s \<Rightarrow> s | _ \<Rightarrow> []),
          self'))"

section \<open>Evaluation rules and facts about the built-ins\<close>

declare str_replace_from.simps(2) [simp del]

declare pattern_sub.simps(2) [simp del]

lemma digits_small [simp]: "n < 10 \<Longrightarrow> digits n = [digit_char n]"
  by (simp add: digits.simps)

lemma digits_large [simp]:
  "\<not> n < 10 \<Longrightarrow> digits n = digits (n div 10) @ [digit_char (n mod 10)]"
  by (subst digits.simps) simp

lemma bit_length_0 [simp]: "bit_length 0 = 0"
  by (simp add: bit_length.simps)

lemma bit_length_pos [simp]: "0 < n \<Longrightarrow> bit_length n = Suc (bit_length (n div 2))"
  by (subst bit_length.simps) simp

lemma bind_err_simps [simp]:
  "bind_err (Inl err) f = Inl err"
  "bind_err (Inr x) f = f x"
  by (simp_all add: bind_err_def)

lemma attr_simps [simp]:
  "attr None field = Inl AttributeError"
  "attr (Some l) field = Inr (field l)"
  by (simp_all add: attr_def)

definition is_digit :: "char \<Rightarrow> bool" where
  "is_digit c = (c \<in> set ''0123456789'')"

lemma digit_char_is_digit: "is_digit (digit_char n)"
  unfolding digit_char_def is_digit_def by (rule nth_mem) simp

lemma digits_all_digit: "\<forall>c \<in> set (digits n). is_digit c"
proof (induction n rule: digits.induct)
  case (1 n)
  show ?case
  proof (cases "n < 10")
    case True
    then show ?thesis by (simp add: digit_char_is_digit)
  next
    case False
    with 1 show ?thesis by (simp add: digit_char_is_digit)
  qed
qed

lemma digits_nonempty: "digits n \<noteq> []"
  by (cases "n < 10") simp_all

lemma is_digit_facts:
  "is_digit c \<Longrightarrow> c \<noteq> CHR '','' \<and> c \<noteq> CHR ''.'' \<and> c \<noteq> CHR ''-'' \<and> c \<notin> set ''THOUSAND''"
  by (auto simp: is_digit_def)

lemma zero_pad_all_digit:
  "\<forall>c \<in> set s. is_digit c \<Longrightarrow> \<forall>c \<in> set (zero_pad w s). is_digit c"
proof -
  have "is_digit (CHR ''0'')" by (simp add: is_digit_def)
  then show "\<forall>c \<in> set s. is_digit c \<Longrightarrow> \<forall>c \<in> set (zero_pad w s). is_digit c"
    by (auto simp: zero_pad_def)
qed

lemma str_replace_from_no_prefix:
  "\<not> (old \<noteq> [] \<and> prefix old (c # cs)) \<Longrightarrow>
   str_replace_from old new (c # cs) = c # str_replace_from old new cs"
  by (auto simp: str_replace_from.simps)

lemma str_replace_from_single:
  "str_replace_from [c] new s = concat (map (\<lambda>x. if x = c then new else [x]) s)"
  by (induction s) (auto simp: str_replace_from.simps)

lemma str_replace_from_skip:
  "c \<noteq> hd old \<Longrightarrow> str_replace_from old new (c # cs) = c # str_replace_from old new cs"
  by (cases old) (auto simp: str_replace_from.simps)

lemma str_replace_from_skips:
  "\<forall>c \<in> set pre. c \<noteq> hd old \<Longrightarrow>
   str_replace_from old new (pre @ rest) = pre @ str_replace_from old new rest"
  by (induction pre) (simp_all add: str_replace_from_skip)

lemma str_replace_from_hit:
  "old \<noteq> [] \<Longrightarrow> str_replace_from old new (old @ rest) = new @ str_replace_from old new rest"
  by (cases old) (auto simp: str_replace_from.simps)

lemma group3_subst:
  "c \<notin> set ds \<Longrightarrow> concat (map (\<lambda>x. if x = c then new else [x]) (group3 [c] ds)) = group3 new ds"
  by (induction ds) auto

lemma concat_map_id:
  "c \<notin> set s \<Longrightarrow> concat (map (\<lambda>x. if x = c then new else [x]) s) = s"
  by (induction s) auto

lemma set_group3: "set (group3 sep ds) \<subseteq> set sep \<union> set ds"
  by (induction ds) auto

lemma str_replace_from_group3:
  assumes "old \<noteq> []" "\<forall>c \<in> set ds. c \<noteq> hd old"
  shows "str_replace_from old new (group3 old ds @ rest) =
         group3 new ds @ str_replace_from old new rest"
  using assms(2)
proof (induction ds)
  case Nil
  then show ?case by simp
next
  case (Cons d ds)
  then show ?case
    by (simp add: str_replace_from_skip str_replace_from_hit [OF assms(1)])
qed

lemma str_replace_from_absent:
  assumes "\<not> sublist old s" "\<forall>c \<in> set post. c \<notin> set old"
  shows "str_replace_from old new (s @ post) = s @ post"
  using assms(1)
proof (induction s)
  case Nil
  have "str_replace_from old new post = post"
    using assms(2)
  proof (induction post)
    case Nil
    then show ?case by simp
  next
    case (Cons a post)
    then have "\<not> (old \<noteq> [] \<and> prefix old (a # post))"
      by (cases old) auto
    with Cons show ?case by (simp add: str_replace_from_no_prefix)
  qed
  then show ?case by simp
next
  case (Cons a s)
  have ns: "\<not> sublist old s"
    using Cons.prems by (meson sublist_Cons_right)
  have "\<not> (old \<noteq> [] \<and> prefix old (a # s @ post))"
  proof
    assume h: "old \<noteq> [] \<and> prefix old (a # s @ post)"
    then have p: "prefix old ((a # s) @ post)" by simp
    then consider "prefix old (a # s)" | us where "old = (a # s) @ us" "us \<noteq> []" "prefix us post"
      by (metis append.right_neutral prefix_append prefix_order.eq_iff  prefixI)
    then show False
    proof cases
      case 1
      then show ?thesis using Cons.prems by (meson prefix_imp_sublist)
    next
      case 2
      then obtain u where "u \<in> set post" "u \<in> set old"
        by (metis Un_iff hd_in_set in_set_conv_decomp list.set_intros(1) prefix_def set_append list.exhaust_sel)
      then show ?thesis using assms(2) by blast
    qed
  qed
  then show ?case using Cons.IH [OF ns] by (simp add: str_replace_from_no_prefix)
qed

lemma not_sublist_shorter: "length s < length old \<Longrightarrow> \<not> sublist old s"
  by (auto simp: sublist_def)

text \<open>Grouping is by threes from the right, and the fraction has as many digits as asked.\<close>

lemma group3_short: "length ds \<le> 3 \<Longrightarrow> group3 sep ds = ds"
  by (induction ds) auto

lemma group3_from_right:
  "length b = 3 \<Longrightarrow> a \<noteq> [] \<Longrightarrow> group3 sep (a @ b) = group3 sep a @ sep @ b"
proof (induction a)
  case Nil
  then show ?case by simp
next
  case (Cons x a)
  show ?case
  proof (cases "a = []")
    case True
    with Cons.prems show ?thesis by (auto simp: group3_short)
  next
    case False
    with Cons show ?thesis by simp
  qed
qed

lemma length_digits: "0 < p \<Longrightarrow> n < 10 ^ p \<Longrightarrow> length (digits n) \<le> p"
proof (induction n arbitrary: p rule: digits.induct)
  case (1 n)
  show ?case
  proof (cases "n < 10")
    case True
    with "1.prems" show ?thesis by simp
  next
    case False
    with "1.prems" obtain p' where p: "p = Suc p'" by (cases p) auto
    with False "1.prems" have "0 < p'" by (cases p') auto
    moreover from p "1.prems" have "n div 10 < 10 ^ p'"
      by (simp add: less_mult_imp_div_less mult.commute)
    ultimately have "length (digits (n div 10)) \<le> p'"
      using "1.IH" False by blast
    with False p show ?thesis by simp
  qed
qed

lemma fraction_places: "0 < p \<Longrightarrow> length (zero_pad p (digits (q mod 10 ^ p))) = p"
  using length_digits [of p "q mod 10 ^ p"] by (simp add: zero_pad_def)

section \<open>Formatter.number\<close>

text \<open>
  What the specification says \<open>number\<close> renders: the digits of the integer part grouped
  by threes from the right with \<open>number_thousand\<close>; for a float, the value rounded to
  \<open>p\<close> places, with \<open>number_decimal\<close> as the radix point; no fraction for an integer.
\<close>

definition number_spec :: "Locale \<Rightarrow> pyvalue \<Rightarrow> nat \<Rightarrow> string" where
  "number_spec l v p =
     (case v of
        VInt n \<Rightarrow> (if n < 0 then ''-'' else []) @ group3 (number_thousand l) (digits (nat \<bar>n\<bar>))
      | VFloat (Finite s m e) \<Rightarrow>
          (if s then ''-'' else []) @
          group3 (number_thousand l) (digits (scaled m e p div 10 ^ p)) @
          (if p = 0 then [] else number_decimal l @ zero_pad p (digits (scaled m e p mod 10 ^ p)))
      | _ \<Rightarrow> [])"

lemma replace_int_core:
  assumes "\<forall>c \<in> set ds. is_digit c" and sg: "sign = ''-'' \<or> sign = []"
  shows "str_replace (str_replace (sign @ group3 '','' ds) '','' ''THOUSAND'') ''THOUSAND'' th
         = sign @ group3 th ds"
proof -
  have c: "CHR '','' \<notin> set ds" using assms is_digit_facts by blast
  have h: "\<forall>c \<in> set ds. c \<noteq> hd ''THOUSAND''" using assms is_digit_facts by fastforce
  have 1: "str_replace (sign @ group3 '','' ds) '','' ''THOUSAND'' = sign @ group3 ''THOUSAND'' ds"
    using sg by (auto simp: str_replace_def str_replace_from_single group3_subst [OF c])
  have 2: "str_replace_from ''THOUSAND'' th (sign @ group3 ''THOUSAND'' ds @ []) =
           sign @ str_replace_from ''THOUSAND'' th (group3 ''THOUSAND'' ds @ [])"
    using sg by (intro str_replace_from_skips) auto
  have 3: "str_replace_from ''THOUSAND'' th (group3 ''THOUSAND'' ds @ []) =
           group3 th ds @ str_replace_from ''THOUSAND'' th []"
    by (rule str_replace_from_group3) (use h in auto)
  show ?thesis using 1 2 3 by (simp add: str_replace_def)
qed

lemma number_int: "number (Some l) (VInt n) d = Inr (number_spec l (VInt n) p)"
  using replace_int_core [OF digits_all_digit, of "if n < 0 then ''-'' else []" "nat \<bar>n\<bar>" "number_thousand l"]
  by (simp add: number_def number_spec_def format_comma_def)

lemma replace_float_core:
  assumes ds: "\<forall>c \<in> set ds. is_digit c" and fs: "\<forall>c \<in> set frac. is_digit c"
    and sg: "sign = ''-'' \<or> sign = []"
    and dec: "\<not> sublist ''THOUSAND'' dec"
  shows "str_replace (str_replace (str_replace (sign @ group3 '','' ds @ ''.'' @ frac) '','' ''THOUSAND'')
           ''.'' dec) ''THOUSAND'' th
         = sign @ group3 th ds @ dec @ frac"
proof -
  let ?T = "''THOUSAND''"
  have c: "CHR '','' \<notin> set ds" using ds is_digit_facts by blast
  have cf: "CHR '','' \<notin> set frac" using fs is_digit_facts by blast
  have pf: "CHR ''.'' \<notin> set frac" using fs is_digit_facts by blast
  have pg: "CHR ''.'' \<notin> set (group3 ?T ds)"
    using set_group3 [of ?T ds] ds is_digit_facts by fastforce
  have h: "\<forall>c \<in> set ds. c \<noteq> hd ?T" using ds is_digit_facts by fastforce
  have 1: "str_replace (sign @ group3 '','' ds @ ''.'' @ frac) '','' ?T = sign @ group3 ?T ds @ ''.'' @ frac"
    using sg by (auto simp: str_replace_def str_replace_from_single group3_subst [OF c] concat_map_id [OF cf])
  have 2: "str_replace (sign @ group3 ?T ds @ ''.'' @ frac) ''.'' dec = sign @ group3 ?T ds @ dec @ frac"
    using sg by (auto simp: str_replace_def str_replace_from_single concat_map_id [OF pg] concat_map_id [OF pf])
  have 3: "str_replace_from ?T th (sign @ group3 ?T ds @ dec @ frac) =
           sign @ str_replace_from ?T th (group3 ?T ds @ dec @ frac)"
    using sg by (intro str_replace_from_skips) auto
  have 4: "str_replace_from ?T th (group3 ?T ds @ dec @ frac) = group3 th ds @ str_replace_from ?T th (dec @ frac)"
    by (rule str_replace_from_group3) (use h in auto)
  have 5: "str_replace_from ?T th (dec @ frac) = dec @ frac"
    by (rule str_replace_from_absent [OF dec]) (use fs is_digit_facts in blast)
  show ?thesis using 1 2 3 4 5 by (simp add: str_replace_def)
qed

lemma replace_float_core0:
  assumes ds: "\<forall>c \<in> set ds. is_digit c"
    and sg: "sign = ''-'' \<or> sign = []"
  shows "str_replace (str_replace (str_replace (sign @ group3 '','' ds) '','' ''THOUSAND'')
           ''.'' dec) ''THOUSAND'' th
         = sign @ group3 th ds"
proof -
  let ?T = "''THOUSAND''"
  have c: "CHR '','' \<notin> set ds" using ds is_digit_facts by blast
  have pg: "CHR ''.'' \<notin> set (group3 ?T ds)"
    using set_group3 [of ?T ds] ds is_digit_facts by fastforce
  have 1: "str_replace (sign @ group3 '','' ds) '','' ?T = sign @ group3 ?T ds"
    using sg by (auto simp: str_replace_def str_replace_from_single group3_subst [OF c])
  have 2: "str_replace (sign @ group3 ?T ds) ''.'' dec = sign @ group3 ?T ds"
    using sg by (auto simp: str_replace_def str_replace_from_single concat_map_id [OF pg])
  have 3: "str_replace (sign @ group3 ?T ds) ?T th = sign @ group3 th ds"
    using replace_int_core [OF ds sg, of th] 1 by simp
  show ?thesis using 1 2 3 by simp
qed

lemma number_float:
  assumes "0 \<le> d" and "\<not> sublist ''THOUSAND'' (number_decimal l)"
  shows "number (Some l) (VFloat (Finite s m e)) d = Inr (number_spec l (VFloat (Finite s m e)) (nat d))"
proof (cases "nat d = 0")
  case True
  then show ?thesis
    using assms(1) replace_float_core0 [OF digits_all_digit, of "if s then ''-'' else []"]
    by (simp add: number_def number_spec_def format_comma_f_def format_float_comma_f_def fixed_point_def)
next
  case False
  have fr: "\<forall>c \<in> set (zero_pad (nat d) (digits (scaled m e (nat d) mod 10 ^ nat d))). is_digit c"
    by (rule zero_pad_all_digit) (rule digits_all_digit)
  show ?thesis
    using False assms(1) replace_float_core [OF digits_all_digit fr _ assms(2), of "if s then ''-'' else []"]
    by (simp add: number_def number_spec_def format_comma_f_def format_float_comma_f_def fixed_point_def)
qed

text \<open>The doubles nearest to \<open>1234567.89\<close> and to \<open>99.99\<close>.\<close>

definition f_1234567_89 :: pyfloat where "f_1234567_89 = Finite False 5302428712241725 (- 32)"
definition f_99_99 :: pyfloat where "f_99_99 = Finite False 7036170730324623 (- 46)"

lemma scaled_1234567_89: "scaled 5302428712241725 (- 32) 2 = 123456789"
  by (simp add: scaled_def round_half_even_def Let_def)

lemma number_spec_en: "number_spec en_US (VFloat f_1234567_89) 2 = ''1,234,567.89''"
  by (simp add: number_spec_def f_1234567_89_def scaled_1234567_89 en_US_def new_Locale_def digit_char_def zero_pad_def)

lemma number_spec_de: "number_spec de_DE (VFloat f_1234567_89) 2 = ''1.234.567,89''"
  by (simp add: number_spec_def f_1234567_89_def scaled_1234567_89 de_DE_def new_Locale_def digit_char_def zero_pad_def)

text \<open>
  Claim C6, amended.  For every integer, \<open>number\<close> renders the sign and the digits grouped
  by threes from the right with \<open>locale.number_thousand\<close>, and no fraction, whatever
  \<open>decimals\<close> is.  For every finite float, when \<open>decimals\<close> is not negative and
  \<open>locale.number_decimal\<close> does not contain the text \<open>THOUSAND\<close>, it renders the value
  rounded to \<open>decimals\<close> places, the integer part grouped the same way and
  \<open>locale.number_decimal\<close> as the radix point.  \<open>1234567.89\<close> gives \<open>1,234,567.89\<close> under
  en-US and \<open>1.234.567,89\<close> under de-DE.
\<close>

theorem number_groups_and_renders:
  "number (Some l) (VInt n) d = Inr (number_spec l (VInt n) p) \<and>
   (0 \<le> d \<and> \<not> sublist ''THOUSAND'' (number_decimal l) \<longrightarrow>
      number (Some l) (VFloat (Finite s m e)) d = Inr (number_spec l (VFloat (Finite s m e)) (nat d))) \<and>
   number (Some en_US) (VFloat f_1234567_89) 2 = Inr ''1,234,567.89'' \<and>
   number (Some de_DE) (VFloat f_1234567_89) 2 = Inr ''1.234.567,89''"
proof -
  have en: "\<not> sublist ''THOUSAND'' (number_decimal en_US)"
    by (rule not_sublist_shorter) (simp add: en_US_def new_Locale_def)
  have de: "\<not> sublist ''THOUSAND'' (number_decimal de_DE)"
    by (rule not_sublist_shorter) (simp add: de_DE_def new_Locale_def)
  have "number (Some en_US) (VFloat f_1234567_89) 2 = Inr ''1,234,567.89''"
    using number_float [of 2 en_US False 5302428712241725 "- 32"] en number_spec_en
    by (simp add: f_1234567_89_def)
  moreover have "number (Some de_DE) (VFloat f_1234567_89) 2 = Inr ''1.234.567,89''"
    using number_float [of 2 de_DE False 5302428712241725 "- 32"] de number_spec_de
    by (simp add: f_1234567_89_def)
  ultimately show ?thesis
    using number_int number_float by blast
qed

text \<open>The theorem at es-ES, on \<open>-1234567\<close> and on \<open>99.99\<close>.\<close>

theorem number_groups_and_renders_witness:
  "(0::int) \<le> 2 \<and> \<not> sublist ''THOUSAND'' (number_decimal es_ES) \<and>
   number (Some es_ES) (VInt (- 1234567)) 2 = Inr ''-1.234.567'' \<and>
   number (Some es_ES) (VFloat f_99_99) 2 = Inr ''99,99''"
proof -
  have es: "\<not> sublist ''THOUSAND'' (number_decimal es_ES)"
    by (rule not_sublist_shorter) (simp add: es_ES_def new_Locale_def)
  have sc: "scaled 7036170730324623 (- 46) 2 = 9999"
    by (simp add: scaled_def round_half_even_def Let_def)
  have 1: "number_spec es_ES (VInt (- 1234567)) 0 = ''-1.234.567''"
    by (simp add: number_spec_def es_ES_def new_Locale_def digit_char_def)
  have 2: "number_spec es_ES (VFloat (Finite False 7036170730324623 (- 46))) 2 = ''99,99''"
    by (simp add: number_spec_def sc es_ES_def new_Locale_def digit_char_def zero_pad_def)
  show ?thesis
    using number_groups_and_renders [of es_ES "- 1234567" 2 0 False 7036170730324623 "- 46"] es 1 2
    by (simp add: f_99_99_def)
qed

text \<open>
  Claim C6 as stated fails on three inputs: a locale whose decimal separator is the text
  \<open>THOUSAND\<close> (the separator is then replaced by the thousands separator: \<open>1.5\<close> gives
  \<open>1,50\<close>), a negative \<open>decimals\<close> (the format specifier is rejected), and an infinity
  (rendered as \<open>inf\<close>).
\<close>

theorem number_counterexample:
  "number (Some (en_US\<lparr>number_decimal := ''THOUSAND''\<rparr>)) (VFloat (Finite False 3 (- 1))) 2
     \<noteq> Inr (number_spec (en_US\<lparr>number_decimal := ''THOUSAND''\<rparr>) (VFloat (Finite False 3 (- 1))) 2) \<and>
   number (Some en_US) (VFloat (Finite False 3 (- 1))) (- 1) = Inl ValueError \<and>
   number (Some en_US) (VFloat (Infinity False)) 2 = Inr ''inf''"
proof -
  have sc: "scaled 3 (- 1) 2 = 150"
    by (simp add: scaled_def round_half_even_def Let_def)
  have a: "number (Some (en_US\<lparr>number_decimal := ''THOUSAND''\<rparr>)) (VFloat (Finite False 3 (- 1))) 2 = Inr ''1,50''"
    by (simp add: number_def format_comma_f_def format_float_comma_f_def fixed_point_def sc
        str_replace_def str_replace_from.simps en_US_def new_Locale_def digit_char_def zero_pad_def)
  have b: "number_spec (en_US\<lparr>number_decimal := ''THOUSAND''\<rparr>) (VFloat (Finite False 3 (- 1))) 2 = ''1THOUSAND50''"
    by (simp add: number_spec_def sc en_US_def new_Locale_def digit_char_def zero_pad_def)
  have c: "number (Some en_US) (VFloat (Finite False 3 (- 1))) (- 1) = Inl ValueError"
    by (simp add: number_def format_comma_f_def)
  have d: "number (Some en_US) (VFloat (Infinity False)) 2 = Inr ''inf''"
    by (simp add: number_def format_comma_f_def format_float_comma_f_def
        str_replace_def str_replace_from.simps en_US_def new_Locale_def)
  show ?thesis using a b c d by simp
qed


section \<open>Formatter.currency\<close>

lemma scaled_99_99: "scaled 7036170730324623 (- 46) 2 = 9999"
  by (simp add: scaled_def round_half_even_def Let_def)

lemma number_99_99_en: "number (Some en_US) (VFloat f_99_99) 2 = Inr ''99.99''"
proof -
  have "\<not> sublist ''THOUSAND'' (number_decimal en_US)"
    by (rule not_sublist_shorter) (simp add: en_US_def new_Locale_def)
  then show ?thesis
    using number_float [of 2 en_US False 7036170730324623 "- 46"]
    by (simp add: f_99_99_def number_spec_def scaled_99_99 en_US_def new_Locale_def digit_char_def zero_pad_def)
qed

lemma number_99_99_es: "number (Some es_ES) (VFloat f_99_99) 2 = Inr ''99,99''"
proof -
  have "\<not> sublist ''THOUSAND'' (number_decimal es_ES)"
    by (rule not_sublist_shorter) (simp add: es_ES_def new_Locale_def)
  then show ?thesis
    using number_float [of 2 es_ES False 7036170730324623 "- 46"]
    by (simp add: f_99_99_def number_spec_def scaled_99_99 es_ES_def new_Locale_def digit_char_def zero_pad_def)
qed

text \<open>\<open>symbol or self.locale.currency_symbol\<close>.\<close>

definition symbol_or :: "string option \<Rightarrow> Locale \<Rightarrow> string" where
  "symbol_or symbol l =
     (case symbol of Some s \<Rightarrow> if s \<noteq> [] then s else currency_symbol l | None \<Rightarrow> currency_symbol l)"

lemma or_attr_Some: "or_attr symbol (Some l) field = Inr (case symbol of Some s \<Rightarrow> if s \<noteq> [] then s else field l | None \<Rightarrow> field l)"
  by (simp add: or_attr_def split: option.splits)

text \<open>
  Claim C9, amended.  For every value, \<open>currency\<close> formats it with \<open>number(value, 2)\<close>
  (and raises what \<open>number\<close> raises); it puts the symbol before the number with nothing
  between when \<open>locale.currency_position\<close> is \<open>before\<close>, and after the number and one
  space when it is \<open>after\<close>.  \<open>currency(99.99)\<close> is \<open>$99.99\<close> under en-US and
  \<open>99,99\<close>, a space and the euro sign under es-ES, whose decimal separator is the comma.
\<close>

theorem currency_places_symbol:
  "(currency_position l = ''before'' \<longrightarrow>
      currency (Some l) v symbol =
        (case number (Some l) v 2 of Inl err \<Rightarrow> Inl err | Inr num \<Rightarrow> Inr (symbol_or symbol l @ num))) \<and>
   (currency_position l = ''after'' \<longrightarrow>
      currency (Some l) v symbol =
        (case number (Some l) v 2 of Inl err \<Rightarrow> Inl err | Inr num \<Rightarrow> Inr (num @ '' '' @ symbol_or symbol l))) \<and>
   currency (Some en_US) (VFloat f_99_99) None = Inr ''$99.99'' \<and>
   currency (Some es_ES) (VFloat f_99_99) None = Inr (''99,99 '' @ euro)"
proof -
  have 1: "currency (Some en_US) (VFloat f_99_99) None = Inr ''$99.99''"
    by (simp add: currency_def or_attr_def number_99_99_en) (simp add: en_US_def new_Locale_def)
  have 2: "currency (Some es_ES) (VFloat f_99_99) None = Inr (''99,99 '' @ euro)"
    by (simp add: currency_def or_attr_def number_99_99_es) (simp add: es_ES_def new_Locale_def)
  show ?thesis
    using 1 2
    by (auto simp: currency_def or_attr_Some symbol_or_def bind_err_def split: sum.splits option.splits)
qed

text \<open>The theorem at en-GB (symbol before) and at fr-FR with an explicit symbol (after).\<close>

theorem currency_places_symbol_witness:
  "currency_position en_GB = ''before'' \<and> currency_position fr_FR = ''after'' \<and>
   currency (Some en_GB) (VInt 1234) None = Inr ([CHR 0xC2, CHR 0xA3] @ ''1,234'') \<and>
   currency (Some fr_FR) (VInt 1234) (Some ''CHF'') = Inr ''1 234 CHF''"
proof -
  have b: "currency_position en_GB = ''before''" by (simp add: en_GB_def new_Locale_def)
  have a: "currency_position fr_FR = ''after''" by (simp add: fr_FR_def new_Locale_def)
  have n1: "number (Some en_GB) (VInt 1234) 2 = Inr ''1,234''"
    using number_int [of en_GB 1234 2 0]
    by (simp add: number_spec_def en_GB_def new_Locale_def digit_char_def)
  have n2: "number (Some fr_FR) (VInt 1234) 2 = Inr ''1 234''"
    using number_int [of fr_FR 1234 2 0]
    by (simp add: number_spec_def fr_FR_def new_Locale_def digit_char_def)
  have s1: "symbol_or None en_GB = [CHR 0xC2, CHR 0xA3]"
    by (simp add: symbol_or_def en_GB_def new_Locale_def)
  have s2: "symbol_or (Some ''CHF'') fr_FR = ''CHF''"
    by (simp add: symbol_or_def)
  show ?thesis
    using currency_places_symbol [of en_GB "VInt 1234" None]
      currency_places_symbol [of fr_FR "VInt 1234" "Some ''CHF''"] a b n1 n2 s1 s2
    by simp
qed

text \<open>
  Claim C9 as stated gives \<open>99.99\<close> and the euro sign for es-ES; the code renders the
  decimal comma of that locale.
\<close>

theorem currency_es_counterexample:
  "currency (Some es_ES) (VFloat f_99_99) None \<noteq> Inr (''99.99 '' @ euro)"
  by (simp add: currency_def or_attr_def number_99_99_es) (simp add: es_ES_def new_Locale_def)


section \<open>I18n.format\<close>

text \<open>The store and the formatter of a fresh \<open>I18n("en-US")\<close>, whatever the word table.\<close>

lemma code_defaults:
  "code en_US = ''en-US''" "code en_GB = ''en-GB''" "code es_ES = ''es-ES''" "code fr_FR = ''fr-FR''"
  "code de_DE = ''de-DE''" "code ja_JP = ''ja-JP''" "code ar_SA = ''ar-SA''"
  by (simp_all add: en_US_def en_GB_def es_ES_def fr_FR_def de_DE_def ja_JP_def ar_SA_def new_Locale_def)

lemma default_locales:
  "st_locales new_TranslationStore =
     [''en-US'' \<mapsto> en_US, ''en-GB'' \<mapsto> en_GB, ''es-ES'' \<mapsto> es_ES, ''fr-FR'' \<mapsto> fr_FR,
      ''de-DE'' \<mapsto> de_DE, ''ja-JP'' \<mapsto> ja_JP, ''ar-SA'' \<mapsto> ar_SA]"
  by (simp add: new_TranslationStore_def add_locale_def code_defaults)

lemma default_translations:
  "st_translations new_TranslationStore =
     [''en-US'' \<mapsto> Map.empty, ''en-GB'' \<mapsto> Map.empty, ''es-ES'' \<mapsto> Map.empty, ''fr-FR'' \<mapsto> Map.empty,
      ''de-DE'' \<mapsto> Map.empty, ''ja-JP'' \<mapsto> Map.empty, ''ar-SA'' \<mapsto> Map.empty]"
  by (simp add: new_TranslationStore_def add_locale_def code_defaults)

lemma formatter_en_US: "fst (get_formatter (new_I18n table ''en-US'') None) = Some en_US"
  by (simp add: get_formatter_def new_I18n_def current_def new_Translator_def get_locale_def default_locales Let_def)

text \<open>The double \<open>0.5\<close>.\<close>

definition f_0_5 :: pyfloat where "f_0_5 = Finite False 4503599627370496 (- 53)"

lemma format_number_first:
  "is_number v \<Longrightarrow> fst (format self v format_type) = number (fst (get_formatter self None)) v 2"
  by (simp add: format_def split: prod.splits)

text \<open>
  Claim C1 says that \<open>I18n.format(v, "currency")\<close> is \<open>Formatter.currency(v)\<close> and
  \<open>I18n.format(v, "percentage")\<close> is \<open>Formatter.percentage(v)\<close> for every numeric \<open>v\<close>.
  The code tests \<open>format_type == "number" or isinstance(value, (int, float, Decimal))\<close>
  first, so a numeric value goes to \<open>number\<close> whatever the tag (\<open>format_number_first\<close>).
  On a fresh \<open>I18n("en-US")\<close>, \<open>format(99.99, "currency")\<close> is \<open>99.99\<close> where
  \<open>currency(99.99)\<close> is \<open>$99.99\<close>, and \<open>format(0.5, "percentage")\<close> is \<open>0.50\<close> where
  \<open>percentage(0.5)\<close> is \<open>50.0%\<close>.
\<close>

theorem format_tag_ignored_for_numbers:
  "fst (format (new_I18n table ''en-US'') (VFloat f_99_99) ''currency'') = Inr ''99.99'' \<and>
   currency (Some en_US) (VFloat f_99_99) None = Inr ''$99.99'' \<and>
   fst (format (new_I18n table ''en-US'') (VFloat f_0_5) ''percentage'') = Inr ''0.50'' \<and>
   percentage (Some en_US) (VFloat f_0_5) 1 = Inr ''50.0%''"
proof -
  have en: "\<not> sublist ''THOUSAND'' (number_decimal en_US)"
    by (rule not_sublist_shorter) (simp add: en_US_def new_Locale_def)
  have 1: "fst (format (new_I18n table ''en-US'') (VFloat f_99_99) ''currency'') = Inr ''99.99''"
    by (simp add: format_number_first formatter_en_US number_99_99_en)
  have 2: "currency (Some en_US) (VFloat f_99_99) None = Inr ''$99.99''"
    by (simp add: currency_def or_attr_def number_99_99_en) (simp add: en_US_def new_Locale_def)
  have s1: "scaled 4503599627370496 (- 53) 2 = 50"
    by (simp add: scaled_def round_half_even_def Let_def)
  have n1: "number (Some en_US) (VFloat f_0_5) 2 = Inr ''0.50''"
    using number_float [of 2 en_US False 4503599627370496 "- 53"] en
    by (simp add: f_0_5_def number_spec_def s1 en_US_def new_Locale_def digit_char_def zero_pad_def)
  have 3: "fst (format (new_I18n table ''en-US'') (VFloat f_0_5) ''percentage'') = Inr ''0.50''"
    by (simp add: format_number_first formatter_en_US n1)
  have bl: "bit_length 450359962737049600 = 59"
    by simp
  have bl2: "bit_length 7036874417766400 = 53"
    by simp
  have t: "float_times_100 f_0_5 = Finite False 7036874417766400 (- 47)"
    by (simp add: f_0_5_def float_times_100_def round_to_double_def bl round_half_even_def Let_def bl2)
  have s2: "scaled 7036874417766400 (- 47) (Suc 0) = 500"
    by (simp add: scaled_def round_half_even_def Let_def)
  have n2: "number (Some en_US) (VFloat (Finite False 7036874417766400 (- 47))) 1 = Inr ''50.0''"
    using number_float [of 1 en_US False 7036874417766400 "- 47"] en
    by (simp add: number_spec_def s2 en_US_def new_Locale_def digit_char_def zero_pad_def)
  have 4: "percentage (Some en_US) (VFloat f_0_5) 1 = Inr ''50.0%''"
    by (simp add: percentage_def t n2)
  show ?thesis using 1 2 3 4 by simp
qed


section \<open>TranslationStore.load_json\<close>

text \<open>
  The translations the specification says \<open>load_json\<close> adds, in order: one for a scalar,
  with the value stringified; one for a dictionary that has a \<open>one\<close> or an \<open>other\<close>
  member, with that dictionary as its plural forms and its \<open>other\<close> member (or the
  empty string) as its value; those of its members, under the extended prefix, for any
  other dictionary.
\<close>

definition plural_bundle :: "string \<Rightarrow> string \<Rightarrow> (string \<times> json) list \<Rightarrow> Translation" where
  "plural_bundle k l d =
     (new_Translation k l (dict_get d ''other'' (JScalar (SStr []))))\<lparr>tr_plural_forms := d\<rparr>"

function flatten :: "string \<Rightarrow> string \<Rightarrow> (string \<times> json) list \<Rightarrow> Translation list" where
  "flatten l pfx [] = []"
| "flatten l pfx ((k, JScalar v) # items) =
     new_Translation (full_key pfx k) l (JScalar (SStr (str_scalar v))) # flatten l pfx items"
| "flatten l pfx ((k, JDict d) # items) =
     (if dict_has d ''one'' \<or> dict_has d ''other''
      then [plural_bundle (full_key pfx k) l d]
      else flatten l (full_key pfx k) d) @ flatten l pfx items"
  by pat_completeness auto
termination
  by (relation "measure (\<lambda>(l, pfx, items). size_list (size_prod (\<lambda>_. 0) size) items)") auto

text \<open>The store after adding a list of translations one by one.\<close>

definition add_all :: "TranslationStore \<Rightarrow> Translation list \<Rightarrow> TranslationStore" where
  "add_all st ts = fold (\<lambda>t s. add_translation s t) ts st"

lemma add_all_append: "add_all st (xs @ ys) = add_all (add_all st xs) ys"
  by (simp add: add_all_def)

lemma load_json_flatten:
  "load_json st l data pfx = (add_all st (flatten l pfx data), int (length (flatten l pfx data)))"
proof (induction st l data pfx rule: load_json.induct)
  case (1 st l pfx)
  then show ?case by (simp add: add_all_def)
next
  case (2 st l k v items pfx)
  then show ?case by (simp add: add_all_def Let_def)
next
  case (3 st l k d items pfx)
  show ?case
  proof (cases "dict_has d ''one'' \<or> dict_has d ''other''")
    case True
    with 3(1) show ?thesis
      by (simp add: add_all_def Let_def plural_bundle_def)
  next
    case False
    with 3(2,3) show ?thesis
      by (simp add: add_all_append Let_def split: prod.splits)
  qed
qed

text \<open>
  Claim C8.  \<open>load_json\<close> adds to the store, in order, exactly the translations of
  \<open>flatten\<close> (a scalar stringified; a dictionary with a \<open>one\<close> or \<open>other\<close> member as one
  pluralized translation whose value is its \<open>other\<close> member, or the empty string; any
  other dictionary recursed into under the dotted prefix), and returns their number.
  Loading \<open>{"a": {"b": "x"}}\<close> adds the one translation with key \<open>a.b\<close> and value \<open>x\<close>
  and returns 1.
\<close>

theorem load_json_flattens:
  "load_json st l data pfx = (add_all st (flatten l pfx data), int (length (flatten l pfx data))) \<and>
   flatten l [] [(''a'', JDict [(''b'', JScalar (SStr ''x''))])]
     = [new_Translation ''a.b'' l (JScalar (SStr ''x''))] \<and>
   snd (load_json st l [(''a'', JDict [(''b'', JScalar (SStr ''x''))])] []) = 1 \<and>
   get_translation (fst (load_json st l [(''a'', JDict [(''b'', JScalar (SStr ''x''))])] [])) l ''a.b''
     = Some (new_Translation ''a.b'' l (JScalar (SStr ''x'')))"
proof -
  have f: "flatten l [] [(''a'', JDict [(''b'', JScalar (SStr ''x''))])]
     = [new_Translation ''a.b'' l (JScalar (SStr ''x''))]"
    by (simp add: dict_has_def full_key_def)
  have g: "get_translation (add_all st [new_Translation ''a.b'' l (JScalar (SStr ''x''))]) l ''a.b''
     = Some (new_Translation ''a.b'' l (JScalar (SStr ''x'')))"
    by (simp add: add_all_def add_translation_def get_translation_def new_Translation_def Let_def)
  show ?thesis
    using f g by (simp add: load_json_flatten)
qed


section \<open>Translator._interpolate\<close>

text \<open>
  A text seen as the specification sees it, on its characters: literal stretches that
  hold no placeholder, each followed by a placeholder \<open>{{name}}\<close> whose name is a
  non-empty run of word characters, and a last literal stretch.  \<open>filled\<close> is the same
  text with every placeholder replaced by its parameter as a string, or kept as it is
  when there is no such parameter.
\<close>

definition is_ident :: "(string \<Rightarrow> bool) \<Rightarrow> string list \<Rightarrow> bool" where
  "is_ident table nm = (nm \<noteq> [] \<and> list_all (word_char table) nm)"

definition placeholder_chars :: "string list \<Rightarrow> string list" where
  "placeholder_chars nm = [''{'', ''{''] @ nm @ [''}'', ''}'']"

definition has_placeholder :: "(string \<Rightarrow> bool) \<Rightarrow> string list \<Rightarrow> bool" where
  "has_placeholder table s = (\<exists>a nm b. is_ident table nm \<and> s = a @ placeholder_chars nm @ b)"

definition param_text :: "(string \<times> scalar) list \<Rightarrow> string \<Rightarrow> string" where
  "param_text params nm =
     (case map_of params nm of Some v \<Rightarrow> str_scalar v | None \<Rightarrow> placeholder nm)"

definition template :: "(string list \<times> string list) list \<Rightarrow> string list \<Rightarrow> string list" where
  "template segs tail = concat (map (\<lambda>(lit, nm). lit @ placeholder_chars nm) segs) @ tail"

definition filled ::
  "(string \<times> scalar) list \<Rightarrow> (string list \<times> string list) list \<Rightarrow> string list \<Rightarrow> string" where
  "filled params segs tail =
     concat (map (\<lambda>(lit, nm). concat lit @ param_text params (concat nm)) segs) @ concat tail"

definition well_formed ::
  "(string \<Rightarrow> bool) \<Rightarrow> (string list \<times> string list) list \<Rightarrow> string list \<Rightarrow> bool" where
  "well_formed table segs tail =
     (list_all (\<lambda>(lit, nm). \<not> has_placeholder table lit \<and> is_ident table nm) segs \<and>
      \<not> has_placeholder table tail)"

text \<open>The characters of a text put together again are the text.\<close>

lemma concat_uchars: "concat (uchars s) = s"
  by (induction s rule: uchars.induct) simp_all

lemma uchars_ascii [simp]:
  "(of_char c :: nat) < 128 \<Longrightarrow> uchars (c # cs) = [c] # uchars cs"
  by simp

lemma not_word_braces: "\<not> word_char table ''{''" "\<not> word_char table ''}''"
  by (simp_all add: word_char_def ascii_word_def)

lemma replace_match_param_text: "replace_match params nm = param_text params nm"
  by (simp add: replace_match_def param_text_def dict_get_def split: option.splits)

lemma match_placeholder_iff:
  "match_placeholder table s = Some (nm, rest) \<longleftrightarrow>
   is_ident table nm \<and> s = placeholder_chars nm @ rest"
proof
  assume h: "match_placeholder table s = Some (nm, rest)"
  then obtain a b r where s: "s = a # b # r"
    by (cases s rule: list.exhaust [case_product list.exhaust])
       (auto simp: match_placeholder_def split: list.splits)
  from h s have ab: "a = ''{''" "b = ''{''"
    and nm: "nm = takeWhile (word_char table) r" "nm \<noteq> []"
    and t2: "take 2 (dropWhile (word_char table) r) = [''}'', ''}'']"
    and rest: "rest = drop 2 (dropWhile (word_char table) r)"
    by (auto simp: match_placeholder_def Let_def split: if_splits)
  have "r = takeWhile (word_char table) r @ take 2 (dropWhile (word_char table) r)
            @ drop 2 (dropWhile (word_char table) r)"
    by simp
  then have "r = nm @ [''}'', ''}''] @ rest" using nm t2 rest by simp
  moreover have "list_all (word_char table) nm"
    unfolding nm(1) list_all_iff by (auto dest: set_takeWhileD)
  ultimately show "is_ident table nm \<and> s = placeholder_chars nm @ rest"
    using s ab nm(2) by (simp add: is_ident_def placeholder_chars_def)
next
  assume h: "is_ident table nm \<and> s = placeholder_chars nm @ rest"
  then have all: "\<forall>c \<in> set nm. word_char table c" and ne: "nm \<noteq> []"
    by (simp_all add: is_ident_def list_all_iff)
  have tw: "takeWhile (word_char table) (nm @ ''}'' # ''}'' # rest) = nm"
    using all by (simp add: takeWhile_append2 not_word_braces)
  have dw: "dropWhile (word_char table) (nm @ ''}'' # ''}'' # rest) = ''}'' # ''}'' # rest"
    using all by (simp add: dropWhile_append2 not_word_braces)
  from h have "s = ''{'' # ''{'' # (nm @ ''}'' # ''}'' # rest)"
    by (simp add: placeholder_chars_def)
  then show "match_placeholder table s = Some (nm, rest)"
    using ne by (simp add: match_placeholder_def tw dw)
qed

lemma no_match_if_plain:
  assumes "\<not> has_placeholder table (c # s)"
  shows "\<not> has_placeholder table s" and "match_placeholder table (c # s) = None"
proof -
  show "\<not> has_placeholder table s"
  proof
    assume "has_placeholder table s"
    then obtain a nm b where "is_ident table nm" "s = a @ placeholder_chars nm @ b"
      by (auto simp: has_placeholder_def)
    then have "is_ident table nm \<and> c # s = (c # a) @ placeholder_chars nm @ b" by simp
    then have "has_placeholder table (c # s)" unfolding has_placeholder_def by blast
    with assms show False by simp
  qed
  show "match_placeholder table (c # s) = None"
  proof (cases "match_placeholder table (c # s)")
    case None
    then show ?thesis .
  next
    case (Some p)
    obtain nm rest where "p = (nm, rest)" by (cases p)
    with Some have "is_ident table nm \<and> c # s = [] @ placeholder_chars nm @ rest"
      by (simp add: match_placeholder_iff)
    then have "has_placeholder table (c # s)" unfolding has_placeholder_def by blast
    with assms show ?thesis by simp
  qed
qed

lemma pattern_sub_plain:
  "\<not> has_placeholder table s \<Longrightarrow> pattern_sub table params s = concat s"
proof (induction s)
  case Nil
  then show ?case by simp
next
  case (Cons c s)
  from no_match_if_plain [OF Cons.prems] Cons.IH show ?case
    by (simp add: pattern_sub.simps)
qed

lemma append_overlap:
  "xs @ ys = zs @ ts \<Longrightarrow>
   \<exists>us. (xs = zs @ us \<and> us @ ys = ts) \<or> (xs @ us = zs \<and> ys = us @ ts)"
  by (auto simp: append_eq_append_conv2)

lemma no_match_before_placeholder:
  assumes plain: "\<not> has_placeholder table (c # lit)" and id: "is_ident table nm"
  shows "match_placeholder table (c # lit @ placeholder_chars nm @ rest) = None"
proof (cases "match_placeholder table (c # lit @ placeholder_chars nm @ rest)")
  case None
  then show ?thesis .
next
  case (Some p)
  obtain n' r' where p: "p = (n', r')" by (cases p)
  with Some have id': "is_ident table n'"
    and eq: "c # lit @ placeholder_chars nm @ rest = placeholder_chars n' @ r'"
    by (simp_all add: match_placeholder_iff)
  from id' have w': "\<forall>x \<in> set n'. word_char table x" and ne': "n' \<noteq> []"
    by (simp_all add: is_ident_def list_all_iff)
  from eq have "(c # lit) @ (placeholder_chars nm @ rest) = placeholder_chars n' @ r'" by simp
  from append_overlap [OF this] obtain us where
    "(c # lit = placeholder_chars n' @ us \<and> us @ placeholder_chars nm @ rest = r') \<or>
     ((c # lit) @ us = placeholder_chars n' \<and> placeholder_chars nm @ rest = us @ r')"
    by blast
  then show ?thesis
  proof
    assume "c # lit = placeholder_chars n' @ us \<and> us @ placeholder_chars nm @ rest = r'"
    then have "is_ident table n' \<and> c # lit = [] @ placeholder_chars n' @ us" using id' by simp
    then have "has_placeholder table (c # lit)" unfolding has_placeholder_def by blast
    with plain show ?thesis by simp
  next
    assume h: "(c # lit) @ us = placeholder_chars n' \<and> placeholder_chars nm @ rest = us @ r'"
    show ?thesis
    proof (cases us)
      case Nil
      with h have "is_ident table n' \<and> c # lit = [] @ placeholder_chars n' @ []" using id' by simp
      then have "has_placeholder table (c # lit)" unfolding has_placeholder_def by blast
      with plain show ?thesis by simp
    next
      case (Cons u us')
      with h have u: "u = ''{''" by (simp add: placeholder_chars_def)
      from h Cons u have e1: "c # lit @ ''{'' # us' = ''{'' # ''{'' # n' @ [''}'', ''}'']"
        by (simp add: placeholder_chars_def)
      show ?thesis
      proof (cases lit)
        case Nil
        with e1 have "us' = n' @ [''}'', ''}'']" by simp
        with h Cons u have "''{'' # ''{'' # nm @ [''}'', ''}''] @ rest = ''{'' # (n' @ [''}'', ''}'']) @ r'"
          by (simp add: placeholder_chars_def)
        then have "''{'' # nm @ [''}'', ''}''] @ rest = n' @ [''}'', ''}''] @ r'" by simp
        with ne' have "hd n' = ''{''" by (cases n') auto
        with ne' w' have "word_char table ''{''" by (metis hd_in_set)
        then show ?thesis by (simp add: not_word_braces)
      next
        case (Cons l lit')
        with e1 have "lit' @ ''{'' # us' = n' @ [''}'', ''}'']" by simp
        then have "''{'' \<in> set (n' @ [''}'', ''}''])"
          by (metis in_set_conv_decomp)
        then have "''{'' \<in> set n'" by simp
        with w' have "word_char table ''{''" by blast
        then show ?thesis by (simp add: not_word_braces)
      qed
    qed
  qed
qed

lemma pattern_sub_segment:
  assumes "\<not> has_placeholder table lit" and "is_ident table nm"
  shows "pattern_sub table params (lit @ placeholder_chars nm @ rest) =
         concat lit @ param_text params (concat nm) @ pattern_sub table params rest"
  using assms(1)
proof (induction lit)
  case Nil
  have m: "match_placeholder table (placeholder_chars nm @ rest) = Some (nm, rest)"
    using assms(2) by (simp add: match_placeholder_iff)
  have "placeholder_chars nm @ rest = ''{'' # tl (placeholder_chars nm @ rest)"
    by (simp add: placeholder_chars_def)
  then have "pattern_sub table params (placeholder_chars nm @ rest) =
      (case match_placeholder table (placeholder_chars nm @ rest) of
         Some (nm, rest) \<Rightarrow> replace_match params (concat nm) @ pattern_sub table params rest
       | None \<Rightarrow> ''{'' @ pattern_sub table params (tl (placeholder_chars nm @ rest)))"
    by (metis pattern_sub.simps(2))
  then show ?case by (simp add: m replace_match_param_text)
next
  case (Cons c lit)
  have "match_placeholder table (c # lit @ placeholder_chars nm @ rest) = None"
    using no_match_before_placeholder [OF Cons.prems assms(2)] .
  moreover have "\<not> has_placeholder table lit"
    using no_match_if_plain(1) [OF Cons.prems] .
  ultimately show ?case
    using Cons.IH by (simp add: pattern_sub.simps)
qed

lemma pattern_sub_template:
  "well_formed table segs tail \<Longrightarrow>
   pattern_sub table params (template segs tail) = filled params segs tail"
proof (induction segs)
  case Nil
  then show ?case by (simp add: well_formed_def template_def filled_def pattern_sub_plain)
next
  case (Cons seg segs)
  obtain lit nm where seg: "seg = (lit, nm)" by (cases seg)
  from Cons.prems seg have wf: "\<not> has_placeholder table lit" "is_ident table nm"
    "well_formed table segs tail"
    by (simp_all add: well_formed_def)
  have "template (seg # segs) tail = lit @ placeholder_chars nm @ template segs tail"
    by (simp add: template_def seg)
  then show ?case
    using pattern_sub_segment [OF wf(1,2)] Cons.IH [OF wf(3)]
    by (simp add: filled_def seg)
qed

lemma plain_no_brace: "''{'' \<notin> set s \<Longrightarrow> \<not> has_placeholder table s"
  by (auto simp: has_placeholder_def placeholder_chars_def)

lemma has_placeholder_Nil: "\<not> has_placeholder table []"
  by (simp add: has_placeholder_def placeholder_chars_def)

lemma has_placeholder_Cons:
  "has_placeholder table (c # s) \<longleftrightarrow>
   match_placeholder table (c # s) \<noteq> None \<or> has_placeholder table s"
proof
  assume "has_placeholder table (c # s)"
  then obtain a nm b where id: "is_ident table nm" and eq: "c # s = a @ placeholder_chars nm @ b"
    by (auto simp: has_placeholder_def)
  show "match_placeholder table (c # s) \<noteq> None \<or> has_placeholder table s"
  proof (cases a)
    case Nil
    with id eq have "match_placeholder table (c # s) = Some (nm, b)"
      by (simp add: match_placeholder_iff)
    then show ?thesis by simp
  next
    case (Cons x a')
    with eq have "s = a' @ placeholder_chars nm @ b" by simp
    with id have "has_placeholder table s" unfolding has_placeholder_def by blast
    then show ?thesis by simp
  qed
next
  assume h: "match_placeholder table (c # s) \<noteq> None \<or> has_placeholder table s"
  show "has_placeholder table (c # s)"
  proof (rule ccontr)
    assume n: "\<not> has_placeholder table (c # s)"
    from no_match_if_plain [OF n] h show False by simp
  qed
qed

lemma every_text_is_template:
  "\<exists>segs tail. well_formed table segs tail \<and> s = template segs tail"
proof (induction s rule: length_induct)
  case (1 s)
  show ?case
  proof (cases s)
    case Nil
    have "well_formed table [] [] \<and> s = template [] []"
      using Nil by (simp add: well_formed_def template_def has_placeholder_Nil)
    then show ?thesis by blast
  next
    case (Cons c cs)
    show ?thesis
    proof (cases "match_placeholder table (c # cs)")
      case (Some p)
      obtain nm rest where p: "p = (nm, rest)" by (cases p)
      with Some have id: "is_ident table nm" and eq: "c # cs = placeholder_chars nm @ rest"
        by (simp_all add: match_placeholder_iff)
      have "length rest < length s"
        using match_placeholder_shorter [of table "c # cs" nm rest] Some p Cons by simp
      with 1 obtain segs tail where wf: "well_formed table segs tail" and r: "rest = template segs tail"
        by blast
      have "well_formed table (([], nm) # segs) tail \<and> s = template (([], nm) # segs) tail"
        using wf r id eq Cons by (simp add: well_formed_def template_def has_placeholder_Nil)
      then show ?thesis by blast
    next
      case None
      have "length cs < length s" using Cons by simp
      with 1 obtain segs tail where wf: "well_formed table segs tail" and r: "cs = template segs tail"
        by blast
      show ?thesis
      proof (cases segs)
        case Nil
        with r have cs: "cs = tail" by (simp add: template_def)
        with wf Nil None have "\<not> has_placeholder table (c # tail)"
          by (simp add: has_placeholder_Cons well_formed_def)
        then have "well_formed table [] (c # tail) \<and> s = template [] (c # tail)"
          using Cons cs by (simp add: well_formed_def template_def)
        then show ?thesis by blast
      next
        case (Cons seg segs')
        obtain lit nm where seg: "seg = (lit, nm)" by (cases seg)
        from wf Cons seg have pl: "\<not> has_placeholder table lit" and id: "is_ident table nm"
          and wf': "well_formed table segs' tail"
          by (simp_all add: well_formed_def)
        from r Cons seg have cs: "cs = lit @ placeholder_chars nm @ template segs' tail"
          by (simp add: template_def)
        have "match_placeholder table (c # lit) = None"
        proof (cases "match_placeholder table (c # lit)")
          case None
          then show ?thesis .
        next
          case (Some q)
          obtain n' r' where "q = (n', r')" by (cases q)
          with Some have "is_ident table n'" "c # lit = placeholder_chars n' @ r'"
            by (simp_all add: match_placeholder_iff)
          then have "is_ident table n' \<and>
              c # cs = placeholder_chars n' @ (r' @ placeholder_chars nm @ template segs' tail)"
            using cs by simp
          then have "match_placeholder table (c # cs)
              = Some (n', r' @ placeholder_chars nm @ template segs' tail)"
            by (simp only: match_placeholder_iff)
          with None show ?thesis by simp
        qed
        with pl have "\<not> has_placeholder table (c # lit)" by (simp add: has_placeholder_Cons)
        then have "well_formed table ((c # lit, nm) # segs') tail \<and>
            s = template ((c # lit, nm) # segs') tail"
          using id wf' cs \<open>s = c # cs\<close> by (simp add: well_formed_def template_def)
        then show ?thesis by blast
      qed
    qed
  qed
qed

text \<open>
  The table of the interpreter below U+0100: beyond ASCII, the word characters are the
  two ordinal indicators, the micro sign, the superscript digits, the three fractions,
  and the letters from U+00C0 on, which leaves out the signs of multiplication and
  division.  The examples use no character from U+0100 on.
\<close>

definition latin1_table :: "string \<Rightarrow> bool" where
  "latin1_table ch =
     (case ch of
        [a, b] \<Rightarrow>
          (if a = CHR 0xC2
           then b \<in> set [CHR 0xAA, CHR 0xB2, CHR 0xB3, CHR 0xB5, CHR 0xB9, CHR 0xBA,
                          CHR 0xBC, CHR 0xBD, CHR 0xBE]
           else a = CHR 0xC3 \<and> is_continuation b \<and> b \<noteq> CHR 0x97 \<and> b \<noteq> CHR 0xB7)
      | _ \<Rightarrow> False)"

definition eacute :: string where "eacute = [CHR 0xC3, CHR 0xA9]"

definition iexcl :: string where "iexcl = [CHR 0xC2, CHR 0xA1]"

lemma word_table_new_I18n: "word_table (translator (new_I18n table dl)) = table"
  by (simp add: new_I18n_def new_Translator_def)

lemma sub_nested: "pattern_sub latin1_table [(''a'', SStr ''{{b}}''), (''b'', SInt 7)]
       (uchars ''Dear {{a}}, {{b}} and {{c}}.'') = ''Dear {{b}}, 7 and {{c}}.''"
  by (simp add: pattern_sub.simps match_placeholder_def word_char_def ascii_word_def Let_def
      replace_match_def dict_get_def placeholder_def str_int_def digit_char_def)

lemma sub_names: "pattern_sub latin1_table
       [(''user_1'', SStr ''Al''), (''a-b'', SStr ''no''), ([], SStr ''no''), (''x'', SStr ''no''),
        (''y'', SStr ''no''), ('' y '', SStr ''no'')]
       (uchars ''{{user_1}}: {{a-b}} {{}} {x} {{ y }} {{{x}}}'') = ''Al: {{a-b}} {{}} {x} {{ y }} {no}''"
  by (simp add: pattern_sub.simps match_placeholder_def word_char_def ascii_word_def Let_def
      replace_match_def dict_get_def placeholder_def)

lemma sub_eacute: "pattern_sub latin1_table [(''caf'' @ eacute, SInt 3)] (uchars (''{{caf'' @ eacute @ ''}}s'')) = ''3s''"
  by (simp add: pattern_sub.simps match_placeholder_def word_char_def ascii_word_def Let_def
      replace_match_def dict_get_def placeholder_def str_int_def digit_char_def eacute_def
      is_continuation_def latin1_table_def)

lemma sub_hola: "pattern_sub latin1_table [(''name'', SStr ''Alice'')] (uchars (iexcl @ ''Hola, {{name}}!''))
     = iexcl @ ''Hola, Alice!''"
  by (simp add: pattern_sub.simps match_placeholder_def word_char_def ascii_word_def Let_def
      replace_match_def dict_get_def placeholder_def iexcl_def
      is_continuation_def latin1_table_def)

lemma sub_iexcl: "pattern_sub latin1_table [(''a'' @ iexcl, SStr ''no'')] (uchars (''{{a'' @ iexcl @ ''}}''))
     = ''{{a'' @ iexcl @ ''}}''"
  by (simp add: pattern_sub.simps match_placeholder_def word_char_def ascii_word_def Let_def
      replace_match_def dict_get_def placeholder_def iexcl_def
      is_continuation_def latin1_table_def)

text \<open>
  Claim C5.  Every text is a sequence of placeholder-free literals and placeholders
  \<open>{{identifier}}\<close>, the identifier being a non-empty run of word characters, and
  interpolation returns the literals unchanged with each placeholder replaced by the
  string of the parameter of that name, or left as it is when there is no such parameter.
  The inserted strings are not scanned again: the result holds them as they are, whatever
  they contain.  This holds whatever the word table.  With the table of the interpreter:
  a value \<open>{{b}}\<close> is inserted as it is; a name may hold digits and the underscore but no
  hyphen or space, and is not empty; a name may hold a letter beyond ASCII such as
  \<open>e\<close> with an acute accent, but not the inverted exclamation mark, which is a literal
  in the Spanish greeting of \<open>example_usage\<close>.
\<close>

theorem interpolate_single_pass:
  "(well_formed (word_table self) segs tail \<and> uchars src = template segs tail \<longrightarrow>
      interpolate self (JScalar (SStr src)) params = Inr (filled params segs tail)) \<and>
   (\<exists>segs' tail'. well_formed (word_table self) segs' tail' \<and> uchars src = template segs' tail') \<and>
   interpolate (translator (new_I18n latin1_table ''en-US''))
     (JScalar (SStr ''Dear {{a}}, {{b}} and {{c}}.'')) [(''a'', SStr ''{{b}}''), (''b'', SInt 7)]
     = Inr ''Dear {{b}}, 7 and {{c}}.'' \<and>
   interpolate (translator (new_I18n latin1_table ''en-US''))
     (JScalar (SStr ''{{user_1}}: {{a-b}} {{}} {x} {{ y }} {{{x}}}''))
     [(''user_1'', SStr ''Al''), (''a-b'', SStr ''no''), ([], SStr ''no''), (''x'', SStr ''no''),
      (''y'', SStr ''no''), ('' y '', SStr ''no'')]
     = Inr ''Al: {{a-b}} {{}} {x} {{ y }} {no}'' \<and>
   interpolate (translator (new_I18n latin1_table ''en-US''))
     (JScalar (SStr (''{{caf'' @ eacute @ ''}}s''))) [(''caf'' @ eacute, SInt 3)] = Inr ''3s'' \<and>
   interpolate (translator (new_I18n latin1_table ''en-US''))
     (JScalar (SStr (iexcl @ ''Hola, {{name}}!''))) [(''name'', SStr ''Alice'')]
     = Inr (iexcl @ ''Hola, Alice!'') \<and>
   interpolate (translator (new_I18n latin1_table ''en-US''))
     (JScalar (SStr (''{{a'' @ iexcl @ ''}}''))) [(''a'' @ iexcl, SStr ''no'')]
     = Inr (''{{a'' @ iexcl @ ''}}'')"
proof -
  have 1: "well_formed (word_table self) segs tail \<and> uchars src = template segs tail \<longrightarrow>
      interpolate self (JScalar (SStr src)) params = Inr (filled params segs tail)"
    by (simp add: interpolate_def pattern_sub_template)
  have 2: "\<exists>segs' tail'. well_formed (word_table self) segs' tail' \<and> uchars src = template segs' tail'"
    using every_text_is_template [of "word_table self" "uchars src"] .
  note ev = interpolate_def word_table_new_I18n json.simps scalar.simps
  have 3: "interpolate (translator (new_I18n latin1_table ''en-US''))
     (JScalar (SStr ''Dear {{a}}, {{b}} and {{c}}.'')) [(''a'', SStr ''{{b}}''), (''b'', SInt 7)]
     = Inr ''Dear {{b}}, 7 and {{c}}.''"
    by (simp only: ev sub_nested)
  have 4: "interpolate (translator (new_I18n latin1_table ''en-US''))
     (JScalar (SStr ''{{user_1}}: {{a-b}} {{}} {x} {{ y }} {{{x}}}''))
     [(''user_1'', SStr ''Al''), (''a-b'', SStr ''no''), ([], SStr ''no''), (''x'', SStr ''no''),
      (''y'', SStr ''no''), ('' y '', SStr ''no'')]
     = Inr ''Al: {{a-b}} {{}} {x} {{ y }} {no}''"
    by (simp only: ev sub_names)
  have 5: "interpolate (translator (new_I18n latin1_table ''en-US''))
     (JScalar (SStr (''{{caf'' @ eacute @ ''}}s''))) [(''caf'' @ eacute, SInt 3)] = Inr ''3s''"
    by (simp only: ev sub_eacute)
  have 6: "interpolate (translator (new_I18n latin1_table ''en-US''))
     (JScalar (SStr (iexcl @ ''Hola, {{name}}!''))) [(''name'', SStr ''Alice'')]
     = Inr (iexcl @ ''Hola, Alice!'')"
    by (simp only: ev sub_hola)
  have 7: "interpolate (translator (new_I18n latin1_table ''en-US''))
     (JScalar (SStr (''{{a'' @ iexcl @ ''}}''))) [(''a'' @ iexcl, SStr ''no'')]
     = Inr (''{{a'' @ iexcl @ ''}}'')"
    by (simp only: ev sub_iexcl)
  show ?thesis
    by (intro conjI) (rule 1 2 3 4 5 6 7)+
qed

text \<open>
  The theorem on a text with a letter beyond ASCII in a name: the value of \<open>a\<close> is the
  text \<open>{{b}}\<close> and stays so, \<open>b\<close> is an integer, the third name has no parameter.
\<close>

theorem interpolate_single_pass_witness:
  "well_formed latin1_table
     [(uchars ''To {'', uchars ''a''), (uchars ''}, '', uchars ''b''), (uchars '' and '', uchars (''t'' @ eacute))]
     (uchars ''.'') \<and>
   uchars (''To {{{a}}}, {{b}} and {{t'' @ eacute @ ''}}.'') =
     template
       [(uchars ''To {'', uchars ''a''), (uchars ''}, '', uchars ''b''), (uchars '' and '', uchars (''t'' @ eacute))]
       (uchars ''.'') \<and>
   interpolate (translator (new_I18n latin1_table ''en-US''))
     (JScalar (SStr (''To {{{a}}}, {{b}} and {{t'' @ eacute @ ''}}.'')))
     [(''a'', SStr ''{{b}}''), (''b'', SInt 12), (''t'', SStr ''no'')]
     = Inr (''To {{{b}}}, 12 and {{t'' @ eacute @ ''}}.'')"
proof -
  let ?segs = "[(uchars ''To {'', uchars ''a''), (uchars ''}, '', uchars ''b''),
                (uchars '' and '', uchars (''t'' @ eacute))]"
  have np: "\<not> has_placeholder latin1_table (uchars ''To {'')"
    by (simp add: has_placeholder_Cons has_placeholder_Nil match_placeholder_def)
  have wf: "well_formed latin1_table ?segs (uchars ''.'')"
    using np
    by (simp add: well_formed_def plain_no_brace is_ident_def word_char_def ascii_word_def
        eacute_def is_continuation_def latin1_table_def)
  have tp: "uchars (''To {{{a}}}, {{b}} and {{t'' @ eacute @ ''}}.'') = template ?segs (uchars ''.'')"
    by (simp add: template_def placeholder_chars_def eacute_def is_continuation_def)
  have fl: "filled [(''a'', SStr ''{{b}}''), (''b'', SInt 12), (''t'', SStr ''no'')] ?segs (uchars ''.'')
      = ''To {{{b}}}, 12 and {{t'' @ eacute @ ''}}.''"
    by (simp add: filled_def param_text_def placeholder_def str_int_def digit_char_def
        eacute_def is_continuation_def)
  show ?thesis
    using interpolate_single_pass [of "translator (new_I18n latin1_table ''en-US'')" ?segs "uchars ''.''"
        "''To {{{a}}}, {{b}} and {{t'' @ eacute @ ''}}.''"
        "[(''a'', SStr ''{{b}}''), (''b'', SInt 12), (''t'', SStr ''no'')]"] wf tp fl
    by (simp add: word_table_new_I18n)
qed


section \<open>Translator.translate\<close>

text \<open>
  The first candidate locale that has the key, with its translation; the plural category
  and the text chosen for it; what a hit resolves to (the text returned and the final
  parameters).
\<close>

definition has_key :: "Translator \<Rightarrow> string \<Rightarrow> string \<Rightarrow> bool" where
  "has_key self k c = (get_translation (store self) c k \<noteq> None)"

definition first_hit :: "Translator \<Rightarrow> string \<Rightarrow> string list \<Rightarrow> (string \<times> Translation) option" where
  "first_hit self k cs =
     (case find (has_key self k) cs of
        None \<Rightarrow> None
      | Some c \<Rightarrow> Some (c, the (get_translation (store self) c k)))"

definition default_rule :: "int \<Rightarrow> PluralForm" where
  "default_rule n = (if n = 0 then ZERO else if n = 1 then ONE else OTHER)"

definition plural_category :: "Translator \<Rightarrow> string \<Rightarrow> int \<Rightarrow> string" where
  "plural_category self c n =
     plural_value
       (case st_locales (store self) c of
          None \<Rightarrow> default_rule n
        | Some lo \<Rightarrow> (case plural_rule lo of None \<Rightarrow> default_rule n | Some rule \<Rightarrow> rule n))"

definition plural_text :: "Translation \<Rightarrow> string \<Rightarrow> json" where
  "plural_text tr category =
     (case map_of (tr_plural_forms tr) category of
        Some text \<Rightarrow> text
      | None \<Rightarrow>
          (case map_of (tr_plural_forms tr) ''other'' of
             Some text \<Rightarrow> text
           | None \<Rightarrow> tr_value tr))"

definition uses_plural :: "Translation \<Rightarrow> int option \<Rightarrow> bool" where
  "uses_plural tr cnt = (cnt \<noteq> None \<and> tr_plural_forms tr \<noteq> [])"

definition resolve ::
  "Translator \<Rightarrow> string \<Rightarrow> Translation \<Rightarrow> int option \<Rightarrow> (string \<times> scalar) list \<Rightarrow>
   (error + string) \<times> (string \<times> scalar) list" where
  "resolve self c tr cnt params =
     (if uses_plural tr cnt
      then (interpolate self (plural_text tr (plural_category self c (the cnt)))
              (AList.update ''count'' (SInt (the cnt)) params),
            AList.update ''count'' (SInt (the cnt)) params)
      else (interpolate self (tr_value tr) params, params))"

definition local_params :: "(string \<times> scalar) list option \<Rightarrow> (string \<times> scalar) list" where
  "local_params params_arg = (case params_arg of Some p \<Rightarrow> p | None \<Rightarrow> [])"

lemma get_plural_form_category:
  "plural_value (get_plural_form self c n) = plural_category self c n"
  by (simp add: get_plural_form_def get_locale_def plural_category_def default_rule_def
      split: option.splits)

lemma try_locales_first_hit:
  "try_locales self k cnt params cs =
     (case first_hit self k cs of
        None \<Rightarrow> None
      | Some (c, tr) \<Rightarrow> Some (resolve self c tr cnt params))"
proof (induction cs)
  case Nil
  then show ?case by (simp add: first_hit_def)
next
  case (Cons c cs)
  show ?case
  proof (cases "get_translation (store self) c k")
    case None
    with Cons show ?thesis by (simp add: first_hit_def has_key_def)
  next
    case (Some tr)
    then show ?thesis
      by (simp add: first_hit_def has_key_def resolve_def uses_plural_def plural_text_def
          dict_get_def get_plural_form_category Let_def split: option.splits)
  qed
qed

lemma translate_first_hit:
  "translate self k locale_arg params_arg cnt dflt =
     (case first_hit self k (locales_to_try self (effective_locale self locale_arg)) of
        None \<Rightarrow> (Inr (case dflt of Some d \<Rightarrow> d | None \<Rightarrow> k), params_arg)
      | Some (c, tr) \<Rightarrow>
          (fst (resolve self c tr cnt (local_params params_arg)),
           if params_arg = None \<or> params_arg = Some [] then params_arg
           else Some (snd (resolve self c tr cnt (local_params params_arg)))))"
  by (auto simp: translate_def try_locales_first_hit local_params_def Let_def
      split: option.splits prod.splits)

text \<open>
  The translations that \<open>example_usage\<close> loads on a fresh \<open>I18n("en-US")\<close>: those under
  en-US (\<open>example_i18n\<close>), then those under es-ES (\<open>example_both\<close>).
\<close>

definition example_en :: "(string \<times> json) list" where
  "example_en =
     [(''greeting'', JScalar (SStr ''Hello, {{name}}!'')),
      (''items'', JDict [(''one'', JScalar (SStr ''{{count}} item'')),
                         (''other'', JScalar (SStr ''{{count}} items''))]),
      (''welcome'', JScalar (SStr ''Welcome to BlackRoad''))]"

definition iacute :: string where "iacute = [CHR 0xC3, CHR 0xAD]"

definition example_es :: "(string \<times> json) list" where
  "example_es =
     [(''greeting'', JScalar (SStr (iexcl @ ''Hola, {{name}}!''))),
      (''items'', JDict [(''one'', JScalar (SStr (''{{count}} art'' @ iacute @ ''culo''))),
                         (''other'', JScalar (SStr (''{{count}} art'' @ iacute @ ''culos'')))]),
      (''welcome'', JScalar (SStr ''Bienvenido a BlackRoad''))]"

definition example_i18n :: I18n where
  "example_i18n = fst (load_translations (new_I18n latin1_table ''en-US'') ''en-US'' example_en)"

definition example_both :: I18n where
  "example_both = fst (load_translations example_i18n ''es-ES'' example_es)"

definition items_bundle :: Translation where
  "items_bundle =
     plural_bundle ''items'' ''en-US''
       [(''one'', JScalar (SStr ''{{count}} item'')), (''other'', JScalar (SStr ''{{count}} items''))]"

text \<open>
  A store with a locale that has a plural rule of its own, which knows a dual: \<open>socks\<close>
  is loaded under that locale, \<open>shoes\<close> under en-US, and \<open>hat\<close> is added under en-US
  with a plural form for one only.
\<close>

definition dual_rule :: "int \<Rightarrow> PluralForm" where
  "dual_rule n = (if n = 1 then ONE else if n = 2 then TWO else OTHER)"

definition en_XA :: Locale where
  "en_XA = (new_Locale ''en-XA'' ''English (dual)'' ''English'')\<lparr>plural_rule := Some dual_rule\<rparr>"

definition socks_forms :: "(string \<times> json) list" where
  "socks_forms =
     [(''zero'', JScalar (SStr ''no socks'')), (''one'', JScalar (SStr ''{{count}} sock'')),
      (''two'', JScalar (SStr ''a pair of socks ({{count}})'')),
      (''other'', JScalar (SStr ''{{count}} socks''))]"

definition shoes_forms :: "(string \<times> json) list" where
  "shoes_forms =
     [(''zero'', JScalar (SStr ''no shoes'')), (''one'', JScalar (SStr ''{{count}} shoe'')),
      (''two'', JScalar (SStr ''a pair of shoes'')),
      (''other'', JScalar (SStr ''{{count}} shoes''))]"

definition hat :: Translation where
  "hat = (new_Translation ''hat'' ''en-US'' (JScalar (SStr ''{{count}} hats'')))
           \<lparr>tr_plural_forms := [(''one'', JScalar (SStr ''a hat''))]\<rparr>"

definition dual_store :: TranslationStore where
  "dual_store =
     add_translation
       (fst (load_json
          (fst (load_json (add_locale new_TranslationStore en_XA) ''en-XA''
                  [(''socks'', JDict socks_forms)] []))
          ''en-US'' [(''shoes'', JDict shoes_forms)] []))
       hat"

definition dual_translator :: Translator where
  "dual_translator = new_Translator latin1_table dual_store ''en-US''"

lemma no_brace_uchars: "CHR ''{'' \<notin> set s \<Longrightarrow> ''{'' \<notin> set (uchars s)"
proof (induction s rule: uchars.induct)
  case 1
  then show ?case by simp
next
  case (2 c cs)
  have "CHR ''{'' \<notin> set (dropWhile is_continuation cs)"
    using 2(3) by (auto dest: set_dropWhileD)
  with 2 show ?case by auto
qed

lemma sub_plain: "CHR ''{'' \<notin> set s \<Longrightarrow> pattern_sub table params (uchars s) = s"
  by (simp add: pattern_sub_plain plain_no_brace no_brace_uchars concat_uchars)

lemma interpolate_plain:
  "CHR ''{'' \<notin> set s \<Longrightarrow> interpolate self (JScalar (SStr s)) params = Inr s"
  by (simp add: interpolate_def sub_plain)

lemma sub_count:
  "pattern_sub table ((''count'', SInt n) # ps) (uchars (''{{count}}'' @ s)) =
     str_int n @ pattern_sub table ((''count'', SInt n) # ps) (uchars s)"
  by (simp add: pattern_sub.simps match_placeholder_def word_char_def ascii_word_def
      replace_match_def dict_get_def Let_def)

lemma interpolate_count:
  "CHR ''{'' \<notin> set s \<Longrightarrow>
   interpolate self (JScalar (SStr (''{{count}}'' @ s))) ((''count'', SInt n) # ps) = Inr (str_int n @ s)"
proof -
  assume h: "CHR ''{'' \<notin> set s"
  show ?thesis
    by (simp only: interpolate_def json.simps scalar.simps sub_count sub_plain [OF h])
qed

lemma has_key_fun: "has_key self k = (\<lambda>c. get_translation (store self) c k \<noteq> None)"
  by (simp add: fun_eq_iff has_key_def)

lemma example_translator:
  "default_locale (translator example_i18n) = ''en-US''"
  "fallback_chain (translator example_i18n) ''en-GB'' = Some [''en-US'']"
  "fallback_chain (translator example_i18n) ''en-US'' = None"
  "fallback_chain (translator example_i18n) ''xx-XX'' = None"
  "word_table (translator example_i18n) = latin1_table"
  by (simp_all add: example_i18n_def load_translations_def new_I18n_def new_Translator_def
      split: prod.splits)

lemma example_store:
  "store (translator example_i18n) = add_all new_TranslationStore (flatten ''en-US'' [] example_en)"
  by (simp add: example_i18n_def load_translations_def load_json_flatten new_I18n_def new_Translator_def)

lemma example_flat:
  "flatten ''en-US'' [] example_en =
     [new_Translation ''greeting'' ''en-US'' (JScalar (SStr ''Hello, {{name}}!'')),
      items_bundle,
      new_Translation ''welcome'' ''en-US'' (JScalar (SStr ''Welcome to BlackRoad''))]"
  by (simp add: example_en_def dict_has_def full_key_def items_bundle_def)

lemma example_lookup:
  "get_translation (store (translator example_i18n)) ''en-US'' ''welcome'' =
     Some (new_Translation ''welcome'' ''en-US'' (JScalar (SStr ''Welcome to BlackRoad'')))"
  "get_translation (store (translator example_i18n)) ''en-US'' ''items'' = Some items_bundle"
  "get_translation (store (translator example_i18n)) ''en-US'' ''missing.key'' = None"
  "get_translation (store (translator example_i18n)) ''en-GB'' k = None"
  "get_translation (store (translator example_i18n)) ''xx-XX'' k = None"
  by (simp_all add: example_store example_flat add_all_def add_translation_def get_translation_def
      default_translations new_Translation_def items_bundle_def plural_bundle_def)

lemma example_locale:
  "st_locales (store (translator example_i18n)) ''en-US'' = Some en_US"
  by (simp add: example_store example_flat add_all_def add_translation_def default_locales)

lemma example_candidates:
  "locales_to_try (translator example_i18n) (effective_locale (translator example_i18n) None) = [''en-US'', ''en-US'']"
  "locales_to_try (translator example_i18n) (effective_locale (translator example_i18n) (Some ''en-GB'')) = [''en-GB'', ''en-US'', ''en-US'']"
  "locales_to_try (translator example_i18n) (effective_locale (translator example_i18n) (Some ''xx-XX'')) = [''xx-XX'', ''en-US'']"
  by (simp_all add: locales_to_try_def effective_locale_def example_translator)

lemma example_first_hit:
  "first_hit (translator example_i18n) ''items'' [''en-US'', ''en-US''] = Some (''en-US'', items_bundle)"
  "first_hit (translator example_i18n) ''welcome'' [''en-GB'', ''en-US'', ''en-US'']
     = Some (''en-US'', new_Translation ''welcome'' ''en-US'' (JScalar (SStr ''Welcome to BlackRoad'')))"
  "first_hit (translator example_i18n) ''missing.key'' [''xx-XX'', ''en-US''] = None"
  by (simp_all add: first_hit_def has_key_def example_lookup)

lemma items_text:
  "plural_text items_bundle ''zero'' = JScalar (SStr ''{{count}} items'')"
  "plural_text items_bundle ''one'' = JScalar (SStr ''{{count}} item'')"
  "plural_text items_bundle ''other'' = JScalar (SStr ''{{count}} items'')"
  "tr_plural_forms items_bundle \<noteq> []"
  by (simp_all add: plural_text_def items_bundle_def plural_bundle_def new_Translation_def)

lemma example_category:
  "plural_category (translator example_i18n) ''en-US'' n = plural_value (default_rule n)"
  by (simp add: plural_category_def example_locale) (simp add: en_US_def new_Locale_def)

lemma count_item:
  "interpolate self (JScalar (SStr ''{{count}} item'')) ((''count'', SInt n) # ps) = Inr (str_int n @ '' item'')"
  "interpolate self (JScalar (SStr ''{{count}} items'')) ((''count'', SInt n) # ps) = Inr (str_int n @ '' items'')"
  using interpolate_count [of "'' item''" self n ps] interpolate_count [of "'' items''" self n ps]
  by simp_all

lemma translate_items:
  "fst (translate (translator example_i18n) ''items'' None None (Some n) None) =
     Inr (str_int n @ (if n = 1 then '' item'' else '' items''))"
  by (simp add: translate_first_hit example_candidates example_first_hit resolve_def uses_plural_def
      items_text example_category default_rule_def local_params_def count_item)

lemma str_int_small: "str_int 0 = ''0''" "str_int 1 = ''1''" "str_int 5 = ''5''" "str_int 2 = ''2''"
  by (simp_all add: str_int_def digit_char_def)

text \<open>The store after the second load of \<open>example_usage\<close>.\<close>

lemma both_translator:
  "default_locale (translator example_both) = ''en-US''"
  "fallback_chain (translator example_both) ''es-MX'' = Some [''es-ES'']"
  "fallback_chain (translator example_both) ''fr-CA'' = Some [''fr-FR'']"
  "fallback_chain (translator example_both) ''es-ES'' = None"
  "fallback_chain (translator example_both) ''en-US'' = None"
  "word_table (translator example_both) = latin1_table"
  by (simp_all add: example_both_def example_i18n_def load_translations_def new_I18n_def
      new_Translator_def split: prod.splits)

lemma both_store:
  "store (translator example_both) =
     add_all (add_all new_TranslationStore (flatten ''en-US'' [] example_en))
       (flatten ''es-ES'' [] example_es)"
  by (simp add: example_both_def load_translations_def load_json_flatten example_store)

lemma both_flat:
  "flatten ''es-ES'' [] example_es =
     [new_Translation ''greeting'' ''es-ES'' (JScalar (SStr (iexcl @ ''Hola, {{name}}!''))),
      plural_bundle ''items'' ''es-ES''
        [(''one'', JScalar (SStr (''{{count}} art'' @ iacute @ ''culo''))),
         (''other'', JScalar (SStr (''{{count}} art'' @ iacute @ ''culos'')))],
      new_Translation ''welcome'' ''es-ES'' (JScalar (SStr ''Bienvenido a BlackRoad''))]"
  by (simp add: example_es_def dict_has_def full_key_def)

lemma both_lookup:
  "get_translation (store (translator example_both)) ''en-US'' ''welcome'' =
     Some (new_Translation ''welcome'' ''en-US'' (JScalar (SStr ''Welcome to BlackRoad'')))"
  "get_translation (store (translator example_both)) ''es-ES'' ''welcome'' =
     Some (new_Translation ''welcome'' ''es-ES'' (JScalar (SStr ''Bienvenido a BlackRoad'')))"
  "get_translation (store (translator example_both)) ''es-ES'' ''greeting'' =
     Some (new_Translation ''greeting'' ''es-ES'' (JScalar (SStr (iexcl @ ''Hola, {{name}}!''))))"
  "get_translation (store (translator example_both)) ''es-MX'' k = None"
  "get_translation (store (translator example_both)) ''fr-CA'' k = None"
  "get_translation (store (translator example_both)) ''fr-FR'' k = None"
  by (simp_all add: both_store both_flat example_flat add_all_def add_translation_def get_translation_def
      default_translations new_Translation_def items_bundle_def plural_bundle_def)

lemma both_candidates:
  "locales_to_try (translator example_both) (effective_locale (translator example_both) None) = [''en-US'', ''en-US'']"
  "locales_to_try (translator example_both) (effective_locale (translator example_both) (Some [])) = [''en-US'', ''en-US'']"
  "locales_to_try (translator example_both) (effective_locale (translator example_both) (Some ''es-ES'')) = [''es-ES'', ''en-US'']"
  "locales_to_try (translator example_both) (effective_locale (translator example_both) (Some ''es-MX'')) = [''es-MX'', ''es-ES'', ''en-US'']"
  "locales_to_try (translator example_both) (effective_locale (translator example_both) (Some ''fr-CA'')) = [''fr-CA'', ''fr-FR'', ''en-US'']"
  by (simp_all add: locales_to_try_def effective_locale_def both_translator)

lemma both_first_hit:
  "first_hit (translator example_both) ''welcome'' [''en-US'', ''en-US'']
     = Some (''en-US'', new_Translation ''welcome'' ''en-US'' (JScalar (SStr ''Welcome to BlackRoad'')))"
  "first_hit (translator example_both) ''welcome'' [''es-ES'', ''en-US'']
     = Some (''es-ES'', new_Translation ''welcome'' ''es-ES'' (JScalar (SStr ''Bienvenido a BlackRoad'')))"
  "first_hit (translator example_both) ''welcome'' [''es-MX'', ''es-ES'', ''en-US'']
     = Some (''es-ES'', new_Translation ''welcome'' ''es-ES'' (JScalar (SStr ''Bienvenido a BlackRoad'')))"
  "first_hit (translator example_both) ''welcome'' [''fr-CA'', ''fr-FR'', ''en-US'']
     = Some (''en-US'', new_Translation ''welcome'' ''en-US'' (JScalar (SStr ''Welcome to BlackRoad'')))"
  "first_hit (translator example_both) ''greeting'' [''es-MX'', ''es-ES'', ''en-US'']
     = Some (''es-ES'', new_Translation ''greeting'' ''es-ES'' (JScalar (SStr (iexcl @ ''Hola, {{name}}!''))))"
  by (simp_all add: first_hit_def has_key_def both_lookup)

lemma both_welcome:
  "fst (translate (translator example_both) ''welcome'' (Some ''es-ES'') None None None)
     = Inr ''Bienvenido a BlackRoad''"
  "fst (translate (translator example_both) ''welcome'' (Some ''es-MX'') None None None)
     = Inr ''Bienvenido a BlackRoad''"
  "fst (translate (translator example_both) ''welcome'' (Some ''fr-CA'') None None None)
     = Inr ''Welcome to BlackRoad''"
  "fst (translate (translator example_both) ''welcome'' None None None None)
     = Inr ''Welcome to BlackRoad''"
  "fst (translate (translator example_both) ''welcome'' (Some []) None None None)
     = Inr ''Welcome to BlackRoad''"
  by (simp_all add: translate_first_hit both_candidates both_first_hit resolve_def uses_plural_def
      local_params_def new_Translation_def interpolate_plain)

lemma both_greeting:
  "fst (translate (translator example_both) ''greeting'' (Some ''es-MX'')
          (Some [(''name'', SStr ''Alice'')]) None None)
     = Inr (iexcl @ ''Hola, Alice!'')"
proof -
  have "interpolate (translator example_both) (JScalar (SStr (iexcl @ ''Hola, {{name}}!'')))
          [(''name'', SStr ''Alice'')] = Inr (iexcl @ ''Hola, Alice!'')"
    by (simp only: interpolate_def json.simps scalar.simps both_translator sub_hola)
  then show ?thesis
    by (simp add: translate_first_hit both_candidates both_first_hit resolve_def uses_plural_def
        local_params_def new_Translation_def)
qed

text \<open>The store with the dual.\<close>

lemma dual_translator:
  "default_locale dual_translator = ''en-US''"
  "fallback_chain dual_translator ''en-XA'' = None"
  "fallback_chain dual_translator ''en-US'' = None"
  "word_table dual_translator = latin1_table"
  "store dual_translator = dual_store"
  by (simp_all add: dual_translator_def new_Translator_def)

lemma dual_store_eq:
  "dual_store =
     add_all (add_locale new_TranslationStore en_XA)
       [plural_bundle ''socks'' ''en-XA'' socks_forms, plural_bundle ''shoes'' ''en-US'' shoes_forms, hat]"
  by (simp add: dual_store_def load_json_flatten add_all_def dict_has_def full_key_def
      socks_forms_def shoes_forms_def)

lemma dual_lookup:
  "get_translation dual_store ''en-XA'' ''socks'' = Some (plural_bundle ''socks'' ''en-XA'' socks_forms)"
  "get_translation dual_store ''en-XA'' ''shoes'' = None"
  "get_translation dual_store ''en-XA'' ''hat'' = None"
  "get_translation dual_store ''en-US'' ''shoes'' = Some (plural_bundle ''shoes'' ''en-US'' shoes_forms)"
  "get_translation dual_store ''en-US'' ''hat'' = Some hat"
  by (simp_all add: dual_store_eq add_all_def add_translation_def add_locale_def get_translation_def
      default_translations new_Translation_def plural_bundle_def hat_def en_XA_def new_Locale_def)

lemma dual_locales:
  "st_locales dual_store ''en-XA'' = Some en_XA"
  "st_locales dual_store ''en-US'' = Some en_US"
  by (simp_all add: dual_store_eq add_all_def add_translation_def add_locale_def default_locales
      en_XA_def new_Locale_def)

lemma dual_category:
  "plural_category dual_translator ''en-XA'' n = plural_value (dual_rule n)"
  "plural_category dual_translator ''en-US'' n = plural_value (default_rule n)"
  by (simp_all add: plural_category_def dual_translator dual_locales)
     (simp_all add: en_XA_def en_US_def new_Locale_def)

lemma dual_candidates:
  "locales_to_try dual_translator (effective_locale dual_translator (Some ''en-XA'')) = [''en-XA'', ''en-US'']"
  "locales_to_try dual_translator (effective_locale dual_translator None) = [''en-US'', ''en-US'']"
  by (simp_all add: locales_to_try_def effective_locale_def dual_translator)

lemma dual_first_hit:
  "first_hit dual_translator ''socks'' [''en-XA'', ''en-US'']
     = Some (''en-XA'', plural_bundle ''socks'' ''en-XA'' socks_forms)"
  "first_hit dual_translator ''shoes'' [''en-XA'', ''en-US'']
     = Some (''en-US'', plural_bundle ''shoes'' ''en-US'' shoes_forms)"
  "first_hit dual_translator ''hat'' [''en-US'', ''en-US''] = Some (''en-US'', hat)"
  by (simp_all add: first_hit_def has_key_def dual_translator dual_lookup)

lemma dual_text:
  "plural_text (plural_bundle ''socks'' ''en-XA'' socks_forms) ''one'' = JScalar (SStr ''{{count}} sock'')"
  "plural_text (plural_bundle ''socks'' ''en-XA'' socks_forms) ''two'' = JScalar (SStr ''a pair of socks ({{count}})'')"
  "plural_text (plural_bundle ''socks'' ''en-XA'' socks_forms) ''other'' = JScalar (SStr ''{{count}} socks'')"
  "plural_text (plural_bundle ''shoes'' ''en-US'' shoes_forms) ''zero'' = JScalar (SStr ''no shoes'')"
  "plural_text (plural_bundle ''shoes'' ''en-US'' shoes_forms) ''other'' = JScalar (SStr ''{{count}} shoes'')"
  "plural_text hat ''one'' = JScalar (SStr ''a hat'')"
  "plural_text hat ''other'' = JScalar (SStr ''{{count}} hats'')"
  "tr_plural_forms (plural_bundle ''socks'' ''en-XA'' socks_forms) \<noteq> []"
  "tr_plural_forms (plural_bundle ''shoes'' ''en-US'' shoes_forms) \<noteq> []"
  "tr_plural_forms hat \<noteq> []"
  by (simp_all add: plural_text_def plural_bundle_def new_Translation_def socks_forms_def
      shoes_forms_def hat_def)

lemma count_dual:
  "interpolate self (JScalar (SStr ''{{count}} sock'')) ((''count'', SInt n) # ps) = Inr (str_int n @ '' sock'')"
  "interpolate self (JScalar (SStr ''{{count}} socks'')) ((''count'', SInt n) # ps) = Inr (str_int n @ '' socks'')"
  "interpolate self (JScalar (SStr ''{{count}} shoes'')) ((''count'', SInt n) # ps) = Inr (str_int n @ '' shoes'')"
  "interpolate self (JScalar (SStr ''{{count}} hats'')) ((''count'', SInt n) # ps) = Inr (str_int n @ '' hats'')"
  using interpolate_count [of "'' sock''" self n ps] interpolate_count [of "'' socks''" self n ps]
    interpolate_count [of "'' shoes''" self n ps] interpolate_count [of "'' hats''" self n ps]
  by simp_all

lemma pair_of_socks:
  "interpolate self (JScalar (SStr ''a pair of socks ({{count}})'')) ((''count'', SInt n) # ps)
     = Inr (''a pair of socks ('' @ str_int n @ '')'')"
  by (simp add: interpolate_def pattern_sub.simps match_placeholder_def word_char_def ascii_word_def
      replace_match_def dict_get_def Let_def)

lemma dual_translate:
  "fst (translate dual_translator ''socks'' (Some ''en-XA'') None (Some 2) None) = Inr ''a pair of socks (2)''"
  "fst (translate dual_translator ''socks'' (Some ''en-XA'') None (Some 0) None) = Inr ''0 socks''"
  "fst (translate dual_translator ''socks'' (Some ''en-XA'') None (Some 1) None) = Inr ''1 sock''"
  "fst (translate dual_translator ''shoes'' (Some ''en-XA'') None (Some 2) None) = Inr ''2 shoes''"
  "fst (translate dual_translator ''shoes'' (Some ''en-XA'') None (Some 0) None) = Inr ''no shoes''"
  "fst (translate dual_translator ''hat'' None None (Some 5) None) = Inr ''5 hats''"
  "fst (translate dual_translator ''hat'' None None (Some 1) None) = Inr ''a hat''"
  by (simp_all add: translate_first_hit dual_candidates dual_first_hit resolve_def uses_plural_def
      dual_text dual_category dual_rule_def default_rule_def local_params_def count_dual pair_of_socks
      interpolate_plain str_int_small)

text \<open>
  Claim C2.  With \<open>L\<close> the requested locale (the default locale when none or an empty
  one is given), \<open>translate\<close> looks the key up in the candidates
  \<open>[L] + fallback_chain.get(L, []) + [default_locale]\<close> in order and resolves with the
  first candidate that has the key, whatever the later ones hold; with no such candidate
  it returns the default or the key.  With default locale en-US, en-GB falling back to
  en-US and \<open>welcome\<close> present under en-US and not under en-GB,
  \<open>translate("welcome", locale="en-GB")\<close> is the en-US text.  With both loads of
  \<open>example_usage\<close>, the requested es-ES wins over the default, es-MX finds the text of
  its fallback es-ES before the default, fr-CA finds nothing before the default, and no
  locale or an empty one is the default.
\<close>

theorem translate_fallback_order:
  "fst (translate self k locale_arg params_arg cnt dflt) =
     (let L = (case locale_arg of
                 Some l \<Rightarrow> if l \<noteq> [] then l else default_locale self
               | None \<Rightarrow> default_locale self);
          candidates = [L] @ (case fallback_chain self L of Some fs \<Rightarrow> fs | None \<Rightarrow> []) @ [default_locale self]
      in case find (\<lambda>c. get_translation (store self) c k \<noteq> None) candidates of
           None \<Rightarrow> Inr (case dflt of Some d \<Rightarrow> d | None \<Rightarrow> k)
         | Some c \<Rightarrow>
             fst (resolve self c (the (get_translation (store self) c k)) cnt (local_params params_arg))) \<and>
   default_locale (translator example_i18n) = ''en-US'' \<and>
   fallback_chain (translator example_i18n) ''en-GB'' = Some [''en-US''] \<and>
   get_translation (store (translator example_i18n)) ''en-GB'' ''welcome'' = None \<and>
   get_translation (store (translator example_i18n)) ''en-US'' ''welcome''
     = Some (new_Translation ''welcome'' ''en-US'' (JScalar (SStr ''Welcome to BlackRoad''))) \<and>
   fst (translate (translator example_i18n) ''welcome'' (Some ''en-GB'') None None None)
     = Inr ''Welcome to BlackRoad'' \<and>
   fst (translate (translator example_both) ''welcome'' (Some ''es-ES'') None None None)
     = Inr ''Bienvenido a BlackRoad'' \<and>
   fst (translate (translator example_both) ''welcome'' (Some ''es-MX'') None None None)
     = Inr ''Bienvenido a BlackRoad'' \<and>
   fst (translate (translator example_both) ''welcome'' (Some ''fr-CA'') None None None)
     = Inr ''Welcome to BlackRoad'' \<and>
   fst (translate (translator example_both) ''welcome'' None None None None)
     = Inr ''Welcome to BlackRoad'' \<and>
   fst (translate (translator example_both) ''welcome'' (Some []) None None None)
     = Inr ''Welcome to BlackRoad'' \<and>
   fst (translate (translator example_both) ''greeting'' (Some ''es-MX'')
          (Some [(''name'', SStr ''Alice'')]) None None)
     = Inr (iexcl @ ''Hola, Alice!'')"
proof -
  have 1: "fst (translate (translator example_i18n) ''welcome'' (Some ''en-GB'') None None None)
     = Inr ''Welcome to BlackRoad''"
    by (simp add: translate_first_hit example_candidates example_first_hit resolve_def uses_plural_def
        local_params_def new_Translation_def interpolate_plain)
  have 2: "fst (translate self k locale_arg params_arg cnt dflt) =
     (let L = (case locale_arg of
                 Some l \<Rightarrow> if l \<noteq> [] then l else default_locale self
               | None \<Rightarrow> default_locale self);
          candidates = [L] @ (case fallback_chain self L of Some fs \<Rightarrow> fs | None \<Rightarrow> []) @ [default_locale self]
      in case find (\<lambda>c. get_translation (store self) c k \<noteq> None) candidates of
           None \<Rightarrow> Inr (case dflt of Some d \<Rightarrow> d | None \<Rightarrow> k)
         | Some c \<Rightarrow>
             fst (resolve self c (the (get_translation (store self) c k)) cnt (local_params params_arg)))"
    by (simp add: translate_first_hit first_hit_def has_key_fun locales_to_try_def effective_locale_def
        Let_def split: option.splits)
  show ?thesis
    by (intro conjI)
       (rule 1 2 example_translator(1) example_translator(2) example_lookup(4) example_lookup(1)
          both_welcome both_greeting)+
qed

text \<open>
  Claim C3.  When the first hit has plural forms and a count is given, the category is
  that of the hit locale's \<open>plural_rule\<close> if it has one, else zero for 0, one for 1 and
  other otherwise; the text is the plural form of that category, else the form \<open>other\<close>,
  else the translation's value; and it is interpolated with the parameters in which
  \<open>count\<close> is set to the count.  With \<open>items.one\<close> and \<open>items.other\<close> as in the
  example, counts 1, 5 and 0 give \<open>1 item\<close>, \<open>5 items\<close> and \<open>0 items\<close>.  In the store
  with the dual, the rule of en-XA decides for \<open>socks\<close> (two for 2, other for 0), the
  default rule decides for \<open>shoes\<close>, found under en-US although en-XA was asked for
  (other for 2, zero for 0), and \<open>hat\<close>, which has no form \<open>other\<close>, takes its value.
\<close>

theorem translate_plural_selection:
  "(first_hit self k (locales_to_try self (effective_locale self locale_arg)) = Some (c, tr) \<and>
    tr_plural_forms tr \<noteq> [] \<and> cnt = Some n \<longrightarrow>
      fst (translate self k locale_arg params_arg cnt dflt) =
        interpolate self
          (plural_text tr
             (plural_value
                (case st_locales (store self) c of
                   None \<Rightarrow> default_rule n
                 | Some lo \<Rightarrow> (case plural_rule lo of None \<Rightarrow> default_rule n | Some rule \<Rightarrow> rule n))))
          (AList.update ''count'' (SInt n) (local_params params_arg))) \<and>
   fst (translate (translator example_i18n) ''items'' None None (Some 1) None) = Inr ''1 item'' \<and>
   fst (translate (translator example_i18n) ''items'' None None (Some 5) None) = Inr ''5 items'' \<and>
   fst (translate (translator example_i18n) ''items'' None None (Some 0) None) = Inr ''0 items'' \<and>
   st_locales (store dual_translator) ''en-XA'' = Some en_XA \<and>
   plural_rule en_XA = Some dual_rule \<and>
   dual_rule 2 = TWO \<and> dual_rule 0 = OTHER \<and>
   fst (translate dual_translator ''socks'' (Some ''en-XA'') None (Some 2) None) = Inr ''a pair of socks (2)'' \<and>
   fst (translate dual_translator ''socks'' (Some ''en-XA'') None (Some 0) None) = Inr ''0 socks'' \<and>
   fst (translate dual_translator ''socks'' (Some ''en-XA'') None (Some 1) None) = Inr ''1 sock'' \<and>
   fst (translate dual_translator ''shoes'' (Some ''en-XA'') None (Some 2) None) = Inr ''2 shoes'' \<and>
   fst (translate dual_translator ''shoes'' (Some ''en-XA'') None (Some 0) None) = Inr ''no shoes'' \<and>
   fst (translate dual_translator ''hat'' None None (Some 5) None) = Inr ''5 hats'' \<and>
   fst (translate dual_translator ''hat'' None None (Some 1) None) = Inr ''a hat''"
proof -
  have 1: "first_hit self k (locales_to_try self (effective_locale self locale_arg)) = Some (c, tr) \<and>
    tr_plural_forms tr \<noteq> [] \<and> cnt = Some n \<longrightarrow>
      fst (translate self k locale_arg params_arg cnt dflt) =
        interpolate self
          (plural_text tr
             (plural_value
                (case st_locales (store self) c of
                   None \<Rightarrow> default_rule n
                 | Some lo \<Rightarrow> (case plural_rule lo of None \<Rightarrow> default_rule n | Some rule \<Rightarrow> rule n))))
          (AList.update ''count'' (SInt n) (local_params params_arg))"
    by (simp add: translate_first_hit resolve_def uses_plural_def plural_category_def)
  have 2: "fst (translate (translator example_i18n) ''items'' None None (Some 1) None) = Inr ''1 item''"
    "fst (translate (translator example_i18n) ''items'' None None (Some 5) None) = Inr ''5 items''"
    "fst (translate (translator example_i18n) ''items'' None None (Some 0) None) = Inr ''0 items''"
    by (simp_all add: translate_items str_int_small)
  have 3: "st_locales (store dual_translator) ''en-XA'' = Some en_XA"
    "plural_rule en_XA = Some dual_rule" "dual_rule 2 = TWO" "dual_rule 0 = OTHER"
    by (simp_all add: dual_translator dual_locales en_XA_def dual_rule_def)
  show ?thesis
    by (intro conjI) (rule 1 2 3 dual_translate)+
qed

text \<open>
  The theorem on \<open>socks\<close> with count 2 and a caller's own \<open>count\<close> parameter,
  overwritten: the hit locale en-XA has a rule, which says two.
\<close>

theorem translate_plural_selection_witness:
  "first_hit dual_translator ''socks''
     (locales_to_try dual_translator (effective_locale dual_translator (Some ''en-XA'')))
     = Some (''en-XA'', plural_bundle ''socks'' ''en-XA'' socks_forms) \<and>
   tr_plural_forms (plural_bundle ''socks'' ''en-XA'' socks_forms) \<noteq> [] \<and>
   fst (translate dual_translator ''socks'' (Some ''en-XA'') (Some [(''count'', SStr ''many'')]) (Some 2) None)
     = Inr ''a pair of socks (2)''"
proof -
  have h: "first_hit dual_translator ''socks''
     (locales_to_try dual_translator (effective_locale dual_translator (Some ''en-XA'')))
     = Some (''en-XA'', plural_bundle ''socks'' ''en-XA'' socks_forms)"
    by (simp add: dual_candidates dual_first_hit)
  have "interpolate dual_translator
          (plural_text (plural_bundle ''socks'' ''en-XA'' socks_forms)
             (plural_value
                (case st_locales (store dual_translator) ''en-XA'' of
                   None \<Rightarrow> default_rule 2
                 | Some lo \<Rightarrow> (case plural_rule lo of None \<Rightarrow> default_rule 2 | Some rule \<Rightarrow> rule 2))))
          (AList.update ''count'' (SInt 2) (local_params (Some [(''count'', SStr ''many'')])))
        = Inr ''a pair of socks (2)''"
    using dual_category(1) [of 2]
    by (simp add: plural_category_def dual_rule_def dual_text local_params_def pair_of_socks str_int_small)
  then show ?thesis
    using translate_plural_selection [of dual_translator "''socks''" "Some ''en-XA''" "''en-XA''"
        "plural_bundle ''socks'' ''en-XA'' socks_forms" "Some 2" 2 "Some [(''count'', SStr ''many'')]" None]
      h dual_text(8)
    by simp
qed

text \<open>
  Claim C4.  When no candidate locale has the key, \<open>translate\<close> returns the default if
  one was given, else the key, and raises nothing; the caller's parameters are untouched.
  \<open>translate("missing.key")\<close> is \<open>missing.key\<close>.
\<close>

theorem translate_missing_key:
  "((\<forall>c \<in> set (locales_to_try self (effective_locale self locale_arg)).
       get_translation (store self) c k = None) \<longrightarrow>
      translate self k locale_arg params_arg cnt dflt =
        (Inr (case dflt of Some d \<Rightarrow> d | None \<Rightarrow> k), params_arg)) \<and>
   fst (translate (translator example_i18n) ''missing.key'' None None None None) = Inr ''missing.key''"
proof -
  have "first_hit self k cs = None" if "\<forall>c \<in> set cs. get_translation (store self) c k = None" for cs
    using that by (induction cs) (simp_all add: first_hit_def has_key_def)
  moreover have "first_hit (translator example_i18n) ''missing.key'' [''en-US'', ''en-US''] = None"
    by (simp add: first_hit_def has_key_def example_lookup)
  ultimately show ?thesis
    by (simp add: translate_first_hit example_candidates)
qed

text \<open>The theorem on an unknown locale, with and without a default.\<close>

theorem translate_missing_key_witness:
  "locales_to_try (translator example_i18n)
     (effective_locale (translator example_i18n) (Some ''xx-XX'')) = [''xx-XX'', ''en-US''] \<and>
   get_translation (store (translator example_i18n)) ''xx-XX'' ''missing.key'' = None \<and>
   get_translation (store (translator example_i18n)) ''en-US'' ''missing.key'' = None \<and>
   translate (translator example_i18n) ''missing.key'' (Some ''xx-XX'') None (Some 3) (Some ''n/a'')
     = (Inr ''n/a'', None) \<and>
   translate (translator example_i18n) ''missing.key'' (Some ''xx-XX'') (Some [(''a'', SInt 1)]) None None
     = (Inr ''missing.key'', Some [(''a'', SInt 1)])"
proof -
  have h: "\<forall>c \<in> set (locales_to_try (translator example_i18n)
                 (effective_locale (translator example_i18n) (Some ''xx-XX''))).
      get_translation (store (translator example_i18n)) c ''missing.key'' = None"
    by (simp add: example_candidates example_lookup)
  show ?thesis
    using h translate_missing_key [of "translator example_i18n" "Some ''xx-XX''" "''missing.key''" None "Some 3" "Some ''n/a''"]
      translate_missing_key [of "translator example_i18n" "Some ''xx-XX''" "''missing.key''" "Some [(''a'', SInt 1)]" None None]
    by (simp add: example_candidates example_lookup)
qed


text \<open>
  Claim C10, amended.  When the caller passes a non-empty \<open>params\<close> dictionary and a
  count, and the first hit has plural forms, the caller's dictionary ends with \<open>count\<close>
  set to the count (overwriting an earlier entry).  In every other case it is unchanged:
  no dictionary, no count, no hit, a hit without plural forms, and also an empty
  dictionary, which \<open>params or {}\<close> replaces by a fresh one.
\<close>

theorem translate_params_frame:
  "(params_arg = Some p \<and> p \<noteq> [] \<and> cnt = Some n \<and>
    first_hit self k (locales_to_try self (effective_locale self locale_arg)) = Some (c, tr) \<and>
    tr_plural_forms tr \<noteq> [] \<longrightarrow>
      snd (translate self k locale_arg params_arg cnt dflt) = Some (AList.update ''count'' (SInt n) p) \<and>
      map_of (AList.update ''count'' (SInt n) p) = (map_of p)(''count'' \<mapsto> SInt n)) \<and>
   (params_arg = None \<or> params_arg = Some [] \<or> cnt = None \<or>
    first_hit self k (locales_to_try self (effective_locale self locale_arg)) = None \<or>
    (first_hit self k (locales_to_try self (effective_locale self locale_arg)) = Some (c, tr) \<and>
     tr_plural_forms tr = []) \<longrightarrow>
      snd (translate self k locale_arg params_arg cnt dflt) = params_arg)"
  by (auto simp: translate_first_hit resolve_def uses_plural_def local_params_def update_conv
      split: option.splits)

text \<open>The theorem on \<open>items\<close>: with a count the entry is overwritten, without it nothing changes.\<close>

theorem translate_params_frame_witness:
  "first_hit (translator example_i18n) ''items''
     (locales_to_try (translator example_i18n) (effective_locale (translator example_i18n) None))
     = Some (''en-US'', items_bundle) \<and>
   tr_plural_forms items_bundle \<noteq> [] \<and>
   snd (translate (translator example_i18n) ''items'' None
          (Some [(''count'', SStr ''many''), (''name'', SStr ''Alice'')]) (Some 5) None)
     = Some [(''count'', SInt 5), (''name'', SStr ''Alice'')] \<and>
   snd (translate (translator example_i18n) ''items'' None
          (Some [(''name'', SStr ''Alice'')]) None None)
     = Some [(''name'', SStr ''Alice'')]"
proof -
  have h: "first_hit (translator example_i18n) ''items''
     (locales_to_try (translator example_i18n) (effective_locale (translator example_i18n) None))
     = Some (''en-US'', items_bundle)"
    by (simp add: example_candidates example_first_hit)
  show ?thesis
    using h items_text(4)
      translate_params_frame [of "Some [(''count'', SStr ''many''), (''name'', SStr ''Alice'')]"
        "[(''count'', SStr ''many''), (''name'', SStr ''Alice'')]" "Some 5" 5
        "translator example_i18n" "''items''" None "''en-US''" items_bundle None]
      translate_params_frame [of "Some [(''name'', SStr ''Alice'')]"
        "[(''name'', SStr ''Alice'')]" None 5
        "translator example_i18n" "''items''" None "''en-US''" items_bundle None]
    by simp
qed

text \<open>
  Claim C10 as stated fails for an empty dictionary: \<open>translate("items", params={}, count=5)\<close>
  returns \<open>5 items\<close> and leaves the caller's dictionary empty.
\<close>

theorem translate_empty_params_counterexample:
  "first_hit (translator example_i18n) ''items''
     (locales_to_try (translator example_i18n) (effective_locale (translator example_i18n) None))
     = Some (''en-US'', items_bundle) \<and>
   tr_plural_forms items_bundle \<noteq> [] \<and>
   fst (translate (translator example_i18n) ''items'' None (Some []) (Some 5) None) = Inr ''5 items'' \<and>
   snd (translate (translator example_i18n) ''items'' None (Some []) (Some 5) None) = Some [] \<and>
   snd (translate (translator example_i18n) ''items'' None (Some []) (Some 5) None)
     \<noteq> Some (AList.update ''count'' (SInt 5) [])"
proof -
  have h: "first_hit (translator example_i18n) ''items''
     (locales_to_try (translator example_i18n) (effective_locale (translator example_i18n) None))
     = Some (''en-US'', items_bundle)"
    by (simp add: example_candidates example_first_hit)
  have t: "fst (translate (translator example_i18n) ''items'' None (Some []) (Some 5) None) = Inr ''5 items''"
    by (simp add: translate_first_hit example_candidates example_first_hit resolve_def uses_plural_def
      items_text example_category default_rule_def local_params_def count_item str_int_small)
  have s: "snd (translate (translator example_i18n) ''items'' None (Some []) (Some 5) None) = Some []"
    by (simp add: translate_first_hit example_candidates example_first_hit)
  show ?thesis using h t s items_text(4) by simp
qed


section \<open>Formatter.date and Formatter.time\<close>

text \<open>
  Substitution on disjoint spans of the format string, as the specification asks for: one
  scan from the left; at each position the first token of the table that starts there is
  replaced by its value and the scan goes on after the token; any other character is
  copied.
\<close>

fun first_token :: "(string \<times> string) list \<Rightarrow> string \<Rightarrow> (string \<times> string) option" where
  "first_token [] s = None"
| "first_token ((tok, v) # table) s =
     (if tok \<noteq> [] \<and> prefix tok s then Some (tok, v) else first_token table s)"

lemma first_token_Some:
  "first_token table s = Some (tok, v) \<Longrightarrow> tok \<noteq> [] \<and> prefix tok s"
  by (induction table) (auto split: if_splits)

function scan_tokens :: "(string \<times> string) list \<Rightarrow> string \<Rightarrow> string" where
  "scan_tokens table [] = []"
| "scan_tokens table (c # cs) =
     (case first_token table (c # cs) of
        Some (tok, v) \<Rightarrow> v @ scan_tokens table (drop (length tok) (c # cs))
      | None \<Rightarrow> c # scan_tokens table cs)"
  by pat_completeness auto
termination
  by (relation "measure (\<lambda>(table, s). length s)") (auto dest: first_token_Some)

declare scan_tokens.simps(2) [simp del]

text \<open>A value made of digits, and not empty: text that no later pass can touch.\<close>

definition inert :: "string \<Rightarrow> bool" where
  "inert v = (v \<noteq> [] \<and> (\<forall>c \<in> set v. is_digit c))"

lemma is_digit_not_letter:
  "is_digit c \<Longrightarrow> c \<notin> set ''YMDHms''"
  by (auto simp: is_digit_def)

lemma inert_skip:
  assumes "inert v" "hd old \<in> set ''YMDHms''"
  shows "str_replace_from old new (v @ rest) = v @ str_replace_from old new rest"
proof (rule str_replace_from_skips)
  show "\<forall>c\<in>set v. c \<noteq> hd old"
    using assms is_digit_not_letter by (auto simp: inert_def)
qed

text \<open>A letter that starts the result of a pass started the text before the pass.\<close>

lemma start_preserved:
  assumes "inert new" "old \<noteq> []" "L \<in> set ''YMDHms''"
    and "prefix [L] (str_replace_from old new body)"
  shows "prefix [L] body"
proof (cases body)
  case Nil
  with assms(4) show ?thesis by simp
next
  case (Cons c cs)
  show ?thesis
  proof (cases "prefix old (c # cs)")
    case True
    then obtain r where "c # cs = old @ r" by (auto simp: prefix_def)
    then have "str_replace_from old new body = new @ str_replace_from old new r"
      using Cons assms(2) by (simp add: str_replace_from_hit)
    with assms(4) have "hd new = L"
      using assms(1) by (cases new) (auto simp: inert_def)
    moreover have "is_digit (hd new)" using assms(1) by (auto simp: inert_def)
    ultimately show ?thesis using assms(3) is_digit_not_letter by blast
  next
    case False
    then have "str_replace_from old new body = c # str_replace_from old new cs"
      using Cons by (simp add: str_replace_from_no_prefix)
    with assms(4) Cons show ?thesis by simp
  qed
qed

lemma pass_keeps_char:
  assumes "inert new" "old \<noteq> []" "L \<in> set ''YMDHms''" "\<not> prefix [L, L] (c # body)"
  shows "\<not> prefix [L, L] (c # str_replace_from old new body)"
  using assms start_preserved [OF assms(1,2,3), of body] by auto

lemma str_replace_from_same: "str_replace_from old old s = s"
proof (induction s rule: length_induct)
  case (1 s)
  show ?case
  proof (cases s)
    case Nil
    then show ?thesis by simp
  next
    case (Cons c cs)
    show ?thesis
    proof (cases "old \<noteq> [] \<and> prefix old (c # cs)")
      case True
      then obtain r where r: "c # cs = old @ r" by (auto simp: prefix_def)
      with True Cons have "length r < length s" by (cases old) auto
      with 1 have "str_replace_from old old r = r" by blast
      with True r Cons show ?thesis by (simp add: str_replace_from_hit)
    next
      case False
      have "length cs < length s" using Cons by simp
      with 1 have "str_replace_from old old cs = cs" by blast
      with False Cons show ?thesis by (simp add: str_replace_from_no_prefix)
    qed
  qed
qed

lemma str_replace_same: "str_replace s old old = s"
  by (simp add: str_replace_def str_replace_from_same)


lemma scan_hit:
  assumes "first_token table s = Some (tok, v)"
  shows "scan_tokens table s = v @ scan_tokens table (drop (length tok) s)"
proof (cases s)
  case Nil
  with first_token_Some [OF assms] show ?thesis by simp
next
  case (Cons c cs)
  with assms show ?thesis by (simp add: scan_tokens.simps)
qed

lemma scan_miss:
  "first_token table (c # cs) = None \<Longrightarrow> scan_tokens table (c # cs) = c # scan_tokens table cs"
  by (simp add: scan_tokens.simps)

lemma date_passes_scan:
  assumes iv: "inert y4" "inert y2" "inert mo" "inert dy"
  shows "str_replace_from ''DD'' dy (str_replace_from ''MM'' mo
           (str_replace_from ''YY'' y2 (str_replace_from ''YYYY'' y4 s)))
         = scan_tokens [(''YYYY'', y4), (''YY'', y2), (''MM'', mo), (''DD'', dy)] s"
proof (induction s rule: length_induct)
  case (1 s)
  let ?table = "[(''YYYY'', y4), (''YY'', y2), (''MM'', mo), (''DD'', dy)]"
  let ?R = "\<lambda>x. str_replace_from ''DD'' dy (str_replace_from ''MM'' mo
           (str_replace_from ''YY'' y2 (str_replace_from ''YYYY'' y4 x)))"
  have IH: "?R r = scan_tokens ?table r" if "length r < length s" for r
    using 1 that by blast
  note hit = str_replace_from_hit [of "''YYYY''", simplified] str_replace_from_hit [of "''YY''", simplified]
    str_replace_from_hit [of "''MM''", simplified] str_replace_from_hit [of "''DD''", simplified]
  note skip = inert_skip [of _ "''YY''", simplified] inert_skip [of _ "''MM''", simplified]
    inert_skip [of _ "''DD''", simplified]
  show ?case
  proof (cases s)
    case Nil
    then show ?thesis by simp
  next
    case (Cons c cs)
    consider (y4) "prefix ''YYYY'' s"
      | (y2) "\<not> prefix ''YYYY'' s" "prefix ''YY'' s"
      | (mo) "\<not> prefix ''YYYY'' s" "\<not> prefix ''YY'' s" "prefix ''MM'' s"
      | (dy) "\<not> prefix ''YYYY'' s" "\<not> prefix ''YY'' s" "\<not> prefix ''MM'' s" "prefix ''DD'' s"
      | (none) "\<not> prefix ''YYYY'' s" "\<not> prefix ''YY'' s" "\<not> prefix ''MM'' s" "\<not> prefix ''DD'' s"
      by blast
    then show ?thesis
    proof cases
      case y4
      then obtain r where r: "s = ''YYYY'' @ r" by (auto simp: prefix_def)
      have ft: "first_token ?table s = Some (''YYYY'', y4)" using y4 by simp
      have "?R s = y4 @ ?R r"
        unfolding r
        by (simp add: hit skip iv)
      also have "\<dots> = y4 @ scan_tokens ?table r" using IH [of r] r by simp
      also have "\<dots> = scan_tokens ?table s" using scan_hit [OF ft] r by simp
      finally show ?thesis .
    next
      case y2
      then obtain r where r: "s = ''YY'' @ r" by (auto simp: prefix_def)
      have ft: "first_token ?table s = Some (''YY'', y2)" using y2 by simp
      have n1: "\<not> prefix ''YYYY'' (CHR ''Y'' # CHR ''Y'' # r)" using y2(1) r by simp
      have n2: "\<not> prefix ''YYYY'' (CHR ''Y'' # r)"
      proof
        assume "prefix ''YYYY'' (CHR ''Y'' # r)"
        then obtain z where "CHR ''Y'' # r = ''YYYY'' @ z" by (auto simp: prefix_def)
        then have "CHR ''Y'' # CHR ''Y'' # r = ''YYYY'' @ (CHR ''Y'' # z)" by simp
        then have "prefix ''YYYY'' (CHR ''Y'' # CHR ''Y'' # r)" unfolding prefix_def by blast
        with n1 show False by simp
      qed
      have "str_replace_from ''YYYY'' y4 s = ''YY'' @ str_replace_from ''YYYY'' y4 r"
        unfolding r using n1 n2 by (simp add: str_replace_from_no_prefix)
      then have "?R s = str_replace_from ''DD'' dy (str_replace_from ''MM'' mo
           (str_replace_from ''YY'' y2 (''YY'' @ str_replace_from ''YYYY'' y4 r)))" by simp
      also have "\<dots> = y2 @ ?R r"
        by (simp add: hit skip iv)
      also have "\<dots> = y2 @ scan_tokens ?table r" using IH [of r] r by simp
      also have "\<dots> = scan_tokens ?table s" using scan_hit [OF ft] r by simp
      finally show ?thesis .
    next
      case mo
      then obtain r where r: "s = ''MM'' @ r" by (auto simp: prefix_def)
      have ft: "first_token ?table s = Some (''MM'', mo)" using mo by simp
      have "?R s = str_replace_from ''DD'' dy (str_replace_from ''MM'' mo
           (''MM'' @ str_replace_from ''YY'' y2 (str_replace_from ''YYYY'' y4 r)))"
        unfolding r by (simp add: str_replace_from_skip)
      also have "\<dots> = mo @ ?R r"
        by (simp add: hit skip iv)
      also have "\<dots> = mo @ scan_tokens ?table r" using IH [of r] r by simp
      also have "\<dots> = scan_tokens ?table s" using scan_hit [OF ft] r by simp
      finally show ?thesis .
    next
      case dy
      then obtain r where r: "s = ''DD'' @ r" by (auto simp: prefix_def)
      have ft: "first_token ?table s = Some (''DD'', dy)" using dy by simp
      have "?R s = str_replace_from ''DD'' dy
           (''DD'' @ str_replace_from ''MM'' mo (str_replace_from ''YY'' y2 (str_replace_from ''YYYY'' y4 r)))"
        unfolding r by (simp add: str_replace_from_skip)
      also have "\<dots> = dy @ ?R r"
        by (simp add: hit skip iv)
      also have "\<dots> = dy @ scan_tokens ?table r" using IH [of r] r by simp
      also have "\<dots> = scan_tokens ?table s" using scan_hit [OF ft] r by simp
      finally show ?thesis .
    next
      case none
      have ft: "first_token ?table (c # cs) = None" using none Cons by simp
      let ?s1 = "str_replace_from ''YYYY'' y4 cs"
      let ?s2 = "str_replace_from ''YY'' y2 ?s1"
      let ?s3 = "str_replace_from ''MM'' mo ?s2"
      have p1: "str_replace_from ''YYYY'' y4 (c # cs) = c # ?s1"
        using none(1) Cons by (simp add: str_replace_from_no_prefix)
      have "\<not> prefix ''YY'' (c # ?s1)"
        using pass_keeps_char [OF iv(1), of "''YYYY''" "CHR ''Y''" c cs] none(2) Cons by simp
      then have p2: "str_replace_from ''YY'' y2 (c # ?s1) = c # ?s2"
        by (simp add: str_replace_from_no_prefix)
      have "\<not> prefix ''MM'' (c # ?s1)"
        using pass_keeps_char [OF iv(1), of "''YYYY''" "CHR ''M''" c cs] none(3) Cons by simp
      then have "\<not> prefix ''MM'' (c # ?s2)"
        using pass_keeps_char [OF iv(2), of "''YY''" "CHR ''M''" c ?s1] by simp
      then have p3: "str_replace_from ''MM'' mo (c # ?s2) = c # ?s3"
        by (simp add: str_replace_from_no_prefix)
      have "\<not> prefix ''DD'' (c # ?s1)"
        using pass_keeps_char [OF iv(1), of "''YYYY''" "CHR ''D''" c cs] none(4) Cons by simp
      then have "\<not> prefix ''DD'' (c # ?s2)"
        using pass_keeps_char [OF iv(2), of "''YY''" "CHR ''D''" c ?s1] by simp
      then have "\<not> prefix ''DD'' (c # ?s3)"
        using pass_keeps_char [OF iv(3), of "''MM''" "CHR ''D''" c ?s2] by simp
      then have p4: "str_replace_from ''DD'' dy (c # ?s3) = c # str_replace_from ''DD'' dy ?s3"
        by (simp add: str_replace_from_no_prefix)
      have "?R s = c # ?R cs" using Cons p1 p2 p3 p4 by simp
      also have "\<dots> = c # scan_tokens ?table cs" using IH [of cs] Cons by simp
      also have "\<dots> = scan_tokens ?table s" using scan_miss [OF ft] Cons by simp
      finally show ?thesis .
    qed
  qed
qed


lemma time_passes_scan:
  assumes iv: "inert hv" "inert mv" "inert sv"
  shows "str_replace_from ''ss'' sv (str_replace_from ''mm'' mv (str_replace_from ''HH'' hv s))
         = scan_tokens [(''HH'', hv), (''mm'', mv), (''ss'', sv)] s"
proof (induction s rule: length_induct)
  case (1 s)
  let ?table = "[(''HH'', hv), (''mm'', mv), (''ss'', sv)]"
  let ?R = "\<lambda>x. str_replace_from ''ss'' sv (str_replace_from ''mm'' mv (str_replace_from ''HH'' hv x))"
  have IH: "?R r = scan_tokens ?table r" if "length r < length s" for r
    using 1 that by blast
  note hit = str_replace_from_hit [of "''HH''", simplified] str_replace_from_hit [of "''mm''", simplified]
    str_replace_from_hit [of "''ss''", simplified]
  note skip = inert_skip [of _ "''mm''", simplified] inert_skip [of _ "''ss''", simplified]
  show ?case
  proof (cases s)
    case Nil
    then show ?thesis by simp
  next
    case (Cons c cs)
    consider (hh) "prefix ''HH'' s"
      | (mi) "\<not> prefix ''HH'' s" "prefix ''mm'' s"
      | (ss) "\<not> prefix ''HH'' s" "\<not> prefix ''mm'' s" "prefix ''ss'' s"
      | (none) "\<not> prefix ''HH'' s" "\<not> prefix ''mm'' s" "\<not> prefix ''ss'' s"
      by blast
    then show ?thesis
    proof cases
      case hh
      then obtain r where r: "s = ''HH'' @ r" by (auto simp: prefix_def)
      have ft: "first_token ?table s = Some (''HH'', hv)" using hh by simp
      have "?R s = hv @ ?R r"
        unfolding r by (simp add: hit skip iv)
      also have "\<dots> = hv @ scan_tokens ?table r" using IH [of r] r by simp
      also have "\<dots> = scan_tokens ?table s" using scan_hit [OF ft] r by simp
      finally show ?thesis .
    next
      case mi
      then obtain r where r: "s = ''mm'' @ r" by (auto simp: prefix_def)
      have ft: "first_token ?table s = Some (''mm'', mv)" using mi by simp
      have "?R s = str_replace_from ''ss'' sv (str_replace_from ''mm'' mv
           (''mm'' @ str_replace_from ''HH'' hv r))"
        unfolding r by (simp add: str_replace_from_skip)
      also have "\<dots> = mv @ ?R r"
        by (simp add: hit skip iv)
      also have "\<dots> = mv @ scan_tokens ?table r" using IH [of r] r by simp
      also have "\<dots> = scan_tokens ?table s" using scan_hit [OF ft] r by simp
      finally show ?thesis .
    next
      case ss
      then obtain r where r: "s = ''ss'' @ r" by (auto simp: prefix_def)
      have ft: "first_token ?table s = Some (''ss'', sv)" using ss by simp
      have "?R s = str_replace_from ''ss'' sv
           (''ss'' @ str_replace_from ''mm'' mv (str_replace_from ''HH'' hv r))"
        unfolding r by (simp add: str_replace_from_skip)
      also have "\<dots> = sv @ ?R r"
        by (simp add: hit skip iv)
      also have "\<dots> = sv @ scan_tokens ?table r" using IH [of r] r by simp
      also have "\<dots> = scan_tokens ?table s" using scan_hit [OF ft] r by simp
      finally show ?thesis .
    next
      case none
      have ft: "first_token ?table (c # cs) = None" using none Cons by simp
      let ?s1 = "str_replace_from ''HH'' hv cs"
      let ?s2 = "str_replace_from ''mm'' mv ?s1"
      have p1: "str_replace_from ''HH'' hv (c # cs) = c # ?s1"
        using none(1) Cons by (simp add: str_replace_from_no_prefix)
      have "\<not> prefix ''mm'' (c # ?s1)"
        using pass_keeps_char [OF iv(1), of "''HH''" "CHR ''m''" c cs] none(2) Cons by simp
      then have p2: "str_replace_from ''mm'' mv (c # ?s1) = c # ?s2"
        by (simp add: str_replace_from_no_prefix)
      have "\<not> prefix ''ss'' (c # ?s1)"
        using pass_keeps_char [OF iv(1), of "''HH''" "CHR ''s''" c cs] none(3) Cons by simp
      then have "\<not> prefix ''ss'' (c # ?s2)"
        using pass_keeps_char [OF iv(2), of "''mm''" "CHR ''s''" c ?s1] by simp
      then have p3: "str_replace_from ''ss'' sv (c # ?s2) = c # str_replace_from ''ss'' sv ?s2"
        by (simp add: str_replace_from_no_prefix)
      have "?R s = c # ?R cs" using Cons p1 p2 p3 by simp
      also have "\<dots> = c # scan_tokens ?table cs" using IH [of cs] Cons by simp
      also have "\<dots> = scan_tokens ?table s" using scan_miss [OF ft] Cons by simp
      finally show ?thesis .
    qed
  qed
qed

text \<open>
  \<open>format_str or self.locale.date_format\<close>; the tokens and values of the replacement
  tables of \<open>date\<close> and \<open>time\<close>; and the values the specification states for \<open>date\<close>:
  a year of four digits, the last two digits of the year, two digits for month and day.
\<close>

definition format_or :: "string option \<Rightarrow> string \<Rightarrow> string" where
  "format_or format_str dflt =
     (case format_str of Some f \<Rightarrow> if f \<noteq> [] then f else dflt | None \<Rightarrow> dflt)"

definition date_tokens :: "nat \<Rightarrow> nat \<Rightarrow> nat \<Rightarrow> (string \<times> string) list" where
  "date_tokens y m d =
     [(''YYYY'', digits y), (''YY'', last2 (digits y)), (''MM'', format_02d m), (''DD'', format_02d d)]"

definition time_tokens :: "nat \<Rightarrow> nat \<Rightarrow> nat \<Rightarrow> (string \<times> string) list" where
  "time_tokens hh mi ss = [(''HH'', format_02d hh), (''mm'', format_02d mi), (''ss'', format_02d ss)]"

definition claimed_date_tokens :: "nat \<Rightarrow> nat \<Rightarrow> nat \<Rightarrow> (string \<times> string) list" where
  "claimed_date_tokens y m d =
     [(''YYYY'', zero_pad 4 (digits y)), (''YY'', format_02d (y mod 100)),
      (''MM'', format_02d m), (''DD'', format_02d d)]"

lemma inert_digits: "inert (digits n)"
  by (simp add: inert_def digits_nonempty digits_all_digit)

lemma inert_last2: "inert (last2 (digits n))"
proof -
  have "length (digits n) - 2 < length (digits n)"
    using digits_nonempty [of n] by (cases "digits n") auto
  then have "last2 (digits n) \<noteq> []"
    unfolding last2_def by (metis drop_eq_Nil not_le)
  moreover have "set (last2 (digits n)) \<subseteq> set (digits n)"
    by (simp add: last2_def set_drop_subset)
  ultimately show ?thesis
    using digits_all_digit [of n] by (auto simp: inert_def)
qed

lemma inert_02d: "inert (format_02d n)"
  using zero_pad_all_digit [OF digits_all_digit, of 2 n] digits_nonempty [of n]
  by (simp add: inert_def format_02d_def) (simp add: zero_pad_def)

lemma or_attr_format: "or_attr fs (Some l) field = Inr (format_or fs (field l))"
  by (simp add: or_attr_def format_or_def split: option.splits)

lemma date_replacements:
  "apply_replacements
     [(''YYYY'', digits y), (''YY'', last2 (digits y)), (''MM'', format_02d m), (''DD'', format_02d d),
      (nen, nen), (gatsu, gatsu), (nichi, nichi)] fmt
   = scan_tokens (date_tokens y m d) fmt"
  using date_passes_scan [of "digits y" "last2 (digits y)" "format_02d m" "format_02d d" fmt,
      OF inert_digits inert_last2 inert_02d inert_02d]
  by (simp add: apply_replacements_def str_replace_same date_tokens_def) (simp add: str_replace_def)

lemma time_replacements:
  "apply_replacements
     [(''HH'', format_02d hh), (''mm'', format_02d mi), (''ss'', format_02d ss)] fmt
   = scan_tokens (time_tokens hh mi ss) fmt"
  using time_passes_scan [of "format_02d hh" "format_02d mi" "format_02d ss" fmt,
      OF inert_02d inert_02d inert_02d]
  by (simp add: apply_replacements_def time_tokens_def) (simp add: str_replace_def)

lemma last_digits: "last (digits n) = digit_char (n mod 10)"
  by (cases "n < 10") simp_all

lemma last2_digits:
  assumes "10 \<le> n"
  shows "last2 (digits n) = [digit_char (n div 10 mod 10), digit_char (n mod 10)]"
proof -
  have "digits (n div 10) = butlast (digits (n div 10)) @ [digit_char (n div 10 mod 10)]"
    using last_digits [of "n div 10"] digits_nonempty [of "n div 10"]
    by (metis append_butlast_last_id)
  then have "digits n = butlast (digits (n div 10)) @ [digit_char (n div 10 mod 10), digit_char (n mod 10)]"
    using assms by simp
  then show ?thesis by (simp add: last2_def)
qed

lemma mod_100: "(n::nat) mod 100 = 10 * (n div 10 mod 10) + n mod 10"
  using mod_mult2_eq [of n 10 10] by simp

lemma format_02d_two:
  "format_02d (n mod 100) = [digit_char (n div 10 mod 10), digit_char (n mod 10)]"
proof -
  have a: "n mod 100 div 10 = n div 10 mod 10" by (simp add: mod_100)
  have b: "n mod 100 mod 10 = n mod 10" by (simp add: mod_100)
  show ?thesis
  proof (cases "n mod 100 < 10")
    case True
    then have z: "n div 10 mod 10 = 0" using a by simp
    have "digits (n mod 100) = [digit_char (n mod 100)]" using True by simp
    moreover have "digit_char (n mod 100) = digit_char (n mod 10)"
      using b by (simp add: digit_char_def)
    moreover have "digit_char 0 = CHR ''0''" by (simp add: digit_char_def)
    ultimately show ?thesis
      using z by (simp add: format_02d_def zero_pad_def)
  next
    case False
    have "n mod 100 div 10 < 10" using a by simp
    then have "digits (n mod 100 div 10) = [digit_char (n mod 100 div 10)]" by simp
    moreover have "digits (n mod 100) = digits (n mod 100 div 10) @ [digit_char (n mod 100 mod 10)]"
      using False by (rule digits_large)
    ultimately have "digits (n mod 100) = [digit_char (n div 10 mod 10), digit_char (n mod 10)]"
      using a b by simp
    then show ?thesis by (simp add: format_02d_def zero_pad_def)
  qed
qed

lemma length_digits_ge4: "1000 \<le> n \<Longrightarrow> 4 \<le> length (digits n)"
proof -
  assume h: "1000 \<le> n"
  then have 1: "\<not> n < 10" "\<not> n div 10 < 10" "\<not> n div 10 div 10 < 10" by simp_all
  have "Suc 0 \<le> length (digits (n div 10 div 10 div 10))"
    using digits_nonempty [of "n div 10 div 10 div 10"]
    by (cases "digits (n div 10 div 10 div 10)") simp_all
  then show ?thesis using 1 by simp
qed

lemma tokens_as_claimed: "1000 \<le> y \<Longrightarrow> date_tokens y m d = claimed_date_tokens y m d"
  using length_digits_ge4 [of y] last2_digits [of y] format_02d_two [of y]
  by (simp add: date_tokens_def claimed_date_tokens_def zero_pad_def)

lemma length_02d: "n < 100 \<Longrightarrow> length (format_02d n) = 2"
  using fraction_places [of 2 n] by (simp add: format_02d_def)

lemma length_year4: "y \<le> 9999 \<Longrightarrow> length (zero_pad 4 (digits y)) = 4"
  using fraction_places [of 4 y] by simp


lemma date_scan:
  "date (Some l) (VWhen (Date y m d)) fs
     = Inr (scan_tokens (date_tokens y m d) (format_or fs (date_format l)))"
  "date (Some l) (VWhen (DateTime y m d hh mi ss)) fs
     = Inr (scan_tokens (date_tokens y m d) (format_or fs (date_format l)))"
  by (simp_all add: date_def or_attr_format date_replacements)

lemma time_scan:
  "time (Some l) (VWhen (DateTime y m d hh mi ss)) fs
     = Inr (scan_tokens (time_tokens hh mi ss) (format_or fs (time_format l)))"
  by (simp add: time_def or_attr_format time_replacements)

text \<open>
  Claim C7, amended.  For every date or datetime and every format string, \<open>date\<close> is the
  single left-to-right scan of the format that replaces \<open>YYYY\<close> by the decimal year,
  \<open>YY\<close> by the last two characters of the decimal year, \<open>MM\<close> and \<open>DD\<close> by month and
  day on two digits, and copies every other character; text already substituted is never
  substituted again.  \<open>time\<close> is the same scan with \<open>HH\<close>, \<open>mm\<close> and \<open>ss\<close>.  From the
  year 1000 on, the year has four digits and \<open>YY\<close> gives its last two digits.
\<close>

theorem date_time_single_pass:
  "date (Some l) (VWhen (Date y m d)) fs
     = Inr (scan_tokens (date_tokens y m d) (format_or fs (date_format l))) \<and>
   date (Some l) (VWhen (DateTime y m d hh mi ss)) fs
     = Inr (scan_tokens (date_tokens y m d) (format_or fs (date_format l))) \<and>
   time (Some l) (VWhen (DateTime y m d hh mi ss)) fs
     = Inr (scan_tokens (time_tokens hh mi ss) (format_or fs (time_format l))) \<and>
   (1000 \<le> y \<longrightarrow> date_tokens y m d = claimed_date_tokens y m d) \<and>
   (y \<le> 9999 \<longrightarrow> length (zero_pad 4 (digits y)) = 4) \<and>
   (n < 100 \<longrightarrow> length (format_02d n) = 2)"
  by (simp add: date_scan time_scan tokens_as_claimed length_02d length_year4)

lemma eval_tokens:
  "digits 2024 = ''2024''" "last2 ''2024'' = ''24''" "format_02d 3 = ''03''" "format_02d 5 = ''05''"
  "format_02d 7 = ''07''" "format_02d 8 = ''08''" "format_02d 9 = ''09''" "format_02d 24 = ''24''"
  by (simp_all add: digit_char_def last2_def format_02d_def zero_pad_def)

text \<open>
  The theorem on 5 March 2024, 07:08:09: the ja-JP format with its ideographs, a format
  given by the caller, and the default time format.
\<close>

theorem date_time_single_pass_witness:
  "(1000::nat) \<le> 2024 \<and> (2024::nat) \<le> 9999 \<and> (3::nat) < 100 \<and>
   date (Some ja_JP) (VWhen (Date 2024 3 5)) None
     = Inr (''2024'' @ nen @ ''03'' @ gatsu @ ''05'' @ nichi) \<and>
   date (Some en_US) (VWhen (DateTime 2024 3 5 7 8 9)) (Some ''DD/MM/YY (YYYY)'')
     = Inr ''05/03/24 (2024)'' \<and>
   time (Some en_US) (VWhen (DateTime 2024 3 5 7 8 9)) None = Inr ''07:08:09'' \<and>
   claimed_date_tokens 2024 3 5 = [(''YYYY'', ''2024''), (''YY'', ''24''), (''MM'', ''03''), (''DD'', ''05'')] \<and>
   length (zero_pad 4 (digits 2024)) = 4 \<and> length (format_02d 3) = 2"
proof -
  have tk: "date_tokens 2024 3 5 = [(''YYYY'', ''2024''), (''YY'', ''24''), (''MM'', ''03''), (''DD'', ''05'')]"
    by (simp add: date_tokens_def eval_tokens)
  have tt: "time_tokens 7 8 9 = [(''HH'', ''07''), (''mm'', ''08''), (''ss'', ''09'')]"
    by (simp add: time_tokens_def eval_tokens)
  have f1: "format_or None (date_format ja_JP) = ''YYYY'' @ nen @ ''MM'' @ gatsu @ ''DD'' @ nichi"
    by (simp add: format_or_def ja_JP_def new_Locale_def)
  have f2: "format_or (Some ''DD/MM/YY (YYYY)'') (date_format en_US) = ''DD/MM/YY (YYYY)''"
    by (simp add: format_or_def)
  have f3: "format_or None (time_format en_US) = ''HH:mm:ss''"
    by (simp add: format_or_def en_US_def new_Locale_def)
  have s1: "scan_tokens [(''YYYY'', ''2024''), (''YY'', ''24''), (''MM'', ''03''), (''DD'', ''05'')]
              (''YYYY'' @ nen @ ''MM'' @ gatsu @ ''DD'' @ nichi)
            = ''2024'' @ nen @ ''03'' @ gatsu @ ''05'' @ nichi"
    by (simp add: scan_tokens.simps nen_def gatsu_def nichi_def)
  have s2: "scan_tokens [(''YYYY'', ''2024''), (''YY'', ''24''), (''MM'', ''03''), (''DD'', ''05'')]
              ''DD/MM/YY (YYYY)'' = ''05/03/24 (2024)''"
    by (simp add: scan_tokens.simps)
  have s3: "scan_tokens [(''HH'', ''07''), (''mm'', ''08''), (''ss'', ''09'')] ''HH:mm:ss'' = ''07:08:09''"
    by (simp add: scan_tokens.simps)
  note T1 = date_time_single_pass [of ja_JP 2024 3 5 None 7 8 9 3]
  note T2 = date_time_single_pass [of en_US 2024 3 5 "Some ''DD/MM/YY (YYYY)''" 7 8 9 3]
  note T3 = date_time_single_pass [of en_US 2024 3 5 None 7 8 9 3]
  from T1 have "date (Some ja_JP) (VWhen (Date 2024 3 5)) None
      = Inr (scan_tokens (date_tokens 2024 3 5) (format_or None (date_format ja_JP)))"
    by (rule conjunct1)
  then have d1: "date (Some ja_JP) (VWhen (Date 2024 3 5)) None
      = Inr (''2024'' @ nen @ ''03'' @ gatsu @ ''05'' @ nichi)"
    by (simp only: tk f1 s1)
  from T2 have "date (Some en_US) (VWhen (DateTime 2024 3 5 7 8 9)) (Some ''DD/MM/YY (YYYY)'')
      = Inr (scan_tokens (date_tokens 2024 3 5) (format_or (Some ''DD/MM/YY (YYYY)'') (date_format en_US)))"
    by blast
  then have d2: "date (Some en_US) (VWhen (DateTime 2024 3 5 7 8 9)) (Some ''DD/MM/YY (YYYY)'')
      = Inr ''05/03/24 (2024)''"
    by (simp only: tk f2 s2)
  from T3 have "time (Some en_US) (VWhen (DateTime 2024 3 5 7 8 9)) None
      = Inr (scan_tokens (time_tokens 7 8 9) (format_or None (time_format en_US)))"
    by blast
  then have d3: "time (Some en_US) (VWhen (DateTime 2024 3 5 7 8 9)) None = Inr ''07:08:09''"
    by (simp only: tt f3 s3)
  from T1 have "date_tokens 2024 3 5 = claimed_date_tokens 2024 3 5" by simp
  then have d4: "claimed_date_tokens 2024 3 5
      = [(''YYYY'', ''2024''), (''YY'', ''24''), (''MM'', ''03''), (''DD'', ''05'')]"
    using tk by simp
  from T1 have d5: "length (zero_pad 4 (digits 2024)) = 4 \<and> length (format_02d 3) = 2" by simp
  show ?thesis using d1 d2 d3 d4 d5 by simp
qed

text \<open>
  Claim C7 as stated fails before the year 1000: \<open>date\<close> writes \<open>str(value.year)\<close>, which
  is not padded, so 31 December 999 gives \<open>999-12-31\<close> and not \<open>0999-12-31\<close>.
\<close>

theorem date_year_counterexample:
  "date (Some en_US) (VWhen (Date 999 12 31)) None = Inr ''999-12-31'' \<and>
   scan_tokens (claimed_date_tokens 999 12 31) ''YYYY-MM-DD'' = ''0999-12-31'' \<and>
   date (Some en_US) (VWhen (Date 999 12 31)) None
     \<noteq> Inr (scan_tokens (claimed_date_tokens 999 12 31) ''YYYY-MM-DD'')"
proof -
  have e: "digits 999 = ''999''" "last2 ''999'' = ''99''" "format_02d 12 = ''12''" "format_02d 31 = ''31''"
    "format_02d (999 mod 100) = ''99''" "zero_pad 4 ''999'' = ''0999''"
    by (simp_all add: digit_char_def last2_def format_02d_def zero_pad_def)
  have f: "format_or None (date_format en_US) = ''YYYY-MM-DD''"
    by (simp add: format_or_def en_US_def new_Locale_def)
  have 1: "date (Some en_US) (VWhen (Date 999 12 31)) None = Inr ''999-12-31''"
    by (simp add: date_scan f date_tokens_def e scan_tokens.simps)
  have 2: "scan_tokens (claimed_date_tokens 999 12 31) ''YYYY-MM-DD'' = ''0999-12-31''"
    by (simp add: claimed_date_tokens_def e scan_tokens.simps)
  show ?thesis using 1 2 by simp
qed


end
